theory Spec2Isabelle
  imports Main
begin

section \<open>Values that cross the HTTP boundary\<close>

text \<open>
  A time value is the number of milliseconds since the epoch, as held by a JavaScript
  \<^verbatim>\<open>Date\<close>. Every \<^verbatim>\<open>new Date()\<close> of the source is an explicit argument of the
  function that makes the call.
\<close>

type_synonym time = int

text \<open>
  A JavaScript error value, with its \<^verbatim>\<open>message\<close>. A rejected promise and a
  \<^verbatim>\<open>throw\<close> are the left injection of a sum.
\<close>

datatype js_error = Error (message: string)

text \<open>
  A number of a parsed JSON text is a double: a finite one, or an infinity when the
  literal is out of range (\<^verbatim>\<open>1e400\<close>); \<^verbatim>\<open>NaN\<close> has no literal. The two zeros
  are told apart because they are written alike. The other finite doubles are not
  computed with, so their type is a parameter.
\<close>

datatype 'n number = Zero | NegZero | Finite 'n | PosInfinity | NegInfinity

datatype 'n json =
    JNull
  | JBool bool
  | JNumber "'n number"
  | JString string
  | JArray "'n json list"
  | JObject "(string \<times> 'n json) list"

text \<open>
  \<^verbatim>\<open>JSON.stringify\<close> is the platform's. A body is kept as the JSON value that its text
  denotes, so what matters of the serialiser is the value a reader of the text gets:
  an infinity is written \<^verbatim>\<open>null\<close> and the negative zero is written \<^verbatim>\<open>0\<close>; every
  other value is read back as it was.
\<close>

primrec serialised :: "'n json \<Rightarrow> 'n json" where
  "serialised JNull = JNull"
| "serialised (JBool b) = JBool b"
| "serialised (JNumber x) =
     (case x of
        NegZero \<Rightarrow> JNumber Zero
      | PosInfinity \<Rightarrow> JNull
      | NegInfinity \<Rightarrow> JNull
      | _ \<Rightarrow> JNumber x)"
| "serialised (JString s) = JString s"
| "serialised (JArray vs) = JArray (map serialised vs)"
| "serialised (JObject kvs) = JObject (map (map_prod id serialised) kvs)"

text \<open>
  The serialiser calls itself once for each level of arrays and objects, and throws a
  \<^verbatim>\<open>RangeError\<close> when the call stack is used up. How many levels fit is the
  platform's: \<open>stack\<close> is the number of levels it takes beyond two, the nesting of the
  bodies that the server builds itself.
\<close>

primrec nesting :: "'n json \<Rightarrow> nat" where
  "nesting JNull = 0"
| "nesting (JBool b) = 0"
| "nesting (JNumber x) = 0"
| "nesting (JString s) = 0"
| "nesting (JArray vs) = Suc (foldr max (map nesting vs) 0)"
| "nesting (JObject kvs) = Suc (foldr max (map snd (map (map_prod id nesting) kvs)) 0)"

definition JSON_stringify :: "nat \<Rightarrow> 'n json \<Rightarrow> js_error + 'n json" where
  "JSON_stringify stack v =
     (if nesting v \<le> stack + 2 then Inr (serialised v)
      else Inl (Error ''Maximum call stack size exceeded''))"

datatype 'n payload = Text string | Json "'n json"

text \<open>
  The Express response object \<^verbatim>\<open>res\<close>: its status code, 200 until \<^verbatim>\<open>res.status\<close>
  changes it, and what has been sent. \<^verbatim>\<open>res.json\<close> serialises its argument before it
  touches the response, so a throw of the serialiser leaves the response as it was.
\<close>

record 'n res =
  statusCode :: nat
  sent :: "'n payload option"

definition express_res :: "'n res" where
  "express_res = \<lparr>statusCode = 200, sent = None\<rparr>"

definition res_status :: "nat \<Rightarrow> 'n res \<Rightarrow> 'n res" where
  "res_status code r = r\<lparr>statusCode := code\<rparr>"

definition res_send :: "string \<Rightarrow> 'n res \<Rightarrow> 'n res" where
  "res_send s r = r\<lparr>sent := Some (Text s)\<rparr>"

definition res_json :: "nat \<Rightarrow> 'n json \<Rightarrow> 'n res \<Rightarrow> js_error + 'n res" where
  "res_json stack v r =
     (case JSON_stringify stack v of
        Inl e \<Rightarrow> Inl e
      | Inr body \<Rightarrow> Inr (r\<lparr>sent := Some (Json body)\<rparr>))"

section \<open>The process\<close>

text \<open>
  The state of the Node process that the script reads and writes: \<^verbatim>\<open>process.env\<close>, the
  module variable \<^verbatim>\<open>spinnerIndex\<close>, and the chunks written to the two output streams.
\<close>

record process =
  env :: "string \<rightharpoonup> string"
  spinnerIndex :: nat
  stdout :: "string list"
  stderr :: "string list"

definition stdout_write :: "string \<Rightarrow> process \<Rightarrow> process" where
  "stdout_write s p = p\<lparr>stdout := stdout p @ [s]\<rparr>"

text \<open>\<^verbatim>\<open>console.error(a, b)\<close> writes its arguments separated by a space, then a newline.\<close>

definition console_error :: "string \<Rightarrow> string \<Rightarrow> process \<Rightarrow> process" where
  "console_error a b p = p\<lparr>stderr := stderr p @ [a @ '' '' @ b @ [CHR 0x0A]]\<rparr>"

definition initial_process :: "(string \<rightharpoonup> string) \<Rightarrow> process" where
  "initial_process e = \<lparr>env = e, spinnerIndex = 0, stdout = [], stderr = []\<rparr>"

section \<open>The spinner\<close>

definition spinnerChars :: "char list" where
  "spinnerChars = [CHR ''|'', CHR ''/'', CHR ''-'', CHR 0x5C]"

text \<open>
  The callback of \<^verbatim>\<open>setInterval\<close>. Reading a JavaScript array out of range gives
  \<^verbatim>\<open>undefined\<close>, which the template literal renders as the word.
\<close>

definition spinner_char :: "nat \<Rightarrow> string" where
  "spinner_char i = (if i < length spinnerChars then [spinnerChars ! i] else ''undefined'')"

definition tick :: "(time \<Rightarrow> string) \<Rightarrow> time \<Rightarrow> process \<Rightarrow> process" where
  "tick toLocaleTimeString now p =
     (let char = spinner_char (spinnerIndex p);
          p1 = stdout_write (''['' @ toLocaleTimeString now @ ''] Server is running... ''
                               @ char @ [CHR 0x0D]) p
      in p1\<lparr>spinnerIndex := (spinnerIndex p1 + 1) mod length spinnerChars\<rparr>)"

section \<open>The root route\<close>

text \<open>The handler of \<^verbatim>\<open>GET /\<close> in \<^verbatim>\<open>src/index.js\<close>.\<close>

definition index_js_root_handler :: "'n res" where
  "index_js_root_handler = res_send ''Hello, World!'' express_res"

text \<open>The handler of \<^verbatim>\<open>GET /\<close> in the server script carried by \<^verbatim>\<open>src/Dockerfile\<close>.\<close>

definition root_handler :: "'n res" where
  "root_handler = res_send ''Hello, World! The server is running.'' express_res"

section \<open>The environment route\<close>

text \<open>
  \<^verbatim>\<open>a || b\<close> where \<^verbatim>\<open>a\<close> is a property of \<^verbatim>\<open>process.env\<close>: a string, or
  \<^verbatim>\<open>undefined\<close> when the variable is not set. The falsy values of that type are
  \<^verbatim>\<open>undefined\<close> and the empty string.
\<close>

definition js_or :: "string option \<Rightarrow> string \<Rightarrow> string" where
  "js_or a b = (case a of None \<Rightarrow> b | Some s \<Rightarrow> if s = [] then b else s)"

definition relevantEnvVars :: "(string \<rightharpoonup> string) \<Rightarrow> 'n json" where
  "relevantEnvVars e = JObject
     [(''testkey1'', JString (js_or (e ''testkey1'') ''NOT FOUND'')),
      (''testkey2'', JString (js_or (e ''testkey2'') ''NOT FOUND'')),
      (''testkey3'', JString (js_or (e ''testkey3'') ''NOT FOUND'')),
      (''testkey4'', JString (js_or (e ''testkey4'') ''NOT FOUND'')),
      (''KUBERNETES_SERVICE_HOST'', JString (js_or (e ''KUBERNETES_SERVICE_HOST'') ''NOT FOUND''))]"

definition env_handler ::
  "nat \<Rightarrow> (time \<Rightarrow> string) \<Rightarrow> time \<Rightarrow> process \<Rightarrow> js_error + 'n res \<times> process" where
  "env_handler stack toLocaleTimeString now p =
     (let p1 = stdout_write ([CHR 0x0A] @ ''['' @ toLocaleTimeString now
                 @ ''] Request received for /env. Reporting environment variables.''
                 @ [CHR 0x0A]) p
      in case res_json stack (JObject
                [(''message'',
                  JString ''Environment variables as seen by the Node.js process:''),
                 (''variables'', relevantEnvVars (env p1))])
                (res_status 200 express_res) of
           Inl e \<Rightarrow> Inl e
         | Inr r \<Rightarrow> Inr (r, p1))"

section \<open>Decimal numerals\<close>

definition digit_char :: "nat \<Rightarrow> char" where
  "digit_char d = char_of (48 + d)"

text \<open>The decimal digits of a natural number, as a template literal renders it.\<close>

fun decimal :: "nat \<Rightarrow> string" where
  "decimal n = (if n < 10 then [digit_char n] else decimal (n div 10) @ [digit_char (n mod 10)])"

declare decimal.simps [simp del]

section \<open>Dates\<close>

text \<open>
  The date arithmetic of \<^verbatim>\<open>Date.prototype.toISOString\<close> is the platform's, not the
  repository's. It is modelled on the abstract operations of the ECMAScript
  specification, whose names are kept. A time value is a whole number of milliseconds,
  so the \<^verbatim>\<open>NaN\<close> of an invalid date is outside the type; \<^verbatim>\<open>new Date()\<close>
  never yields one.
\<close>

definition msPerDay :: int where
  "msPerDay = 86400000"

definition Day :: "time \<Rightarrow> int" where
  "Day t = t div msPerDay"

definition DaysInYear :: "int \<Rightarrow> int" where
  "DaysInYear y =
     (if y mod 4 \<noteq> 0 then 365
      else if y mod 100 \<noteq> 0 then 366
      else if y mod 400 \<noteq> 0 then 365
      else 366)"

definition DayFromYear :: "int \<Rightarrow> int" where
  "DayFromYear y =
     365 * (y - 1970) + (y - 1969) div 4 - (y - 1901) div 100 + (y - 1601) div 400"

text \<open>
  The specification defines the year of a day as the largest \<open>y\<close> whose first day is not
  after it. The search below starts from a year that is not after the answer and walks up.
\<close>

function year_from :: "int \<Rightarrow> int \<Rightarrow> int" where
  "year_from d y = (if DayFromYear (y + 1) \<le> d then year_from d (y + 1) else y)"
  by pat_completeness auto
termination
proof (relation "measure (\<lambda>(d, y). nat (d - DayFromYear y))")
  show "wf (measure (\<lambda>(d, y). nat (d - DayFromYear y)))"
    by simp
next
  fix d y :: int
  assume le: "DayFromYear (y + 1) \<le> d"
  have q4: "(y - 1969) div 4 \<le> (y + 1 - 1969) div 4"
    by (rule zdiv_mono1) simp_all
  have q400: "(y - 1601) div 400 \<le> (y + 1 - 1601) div 400"
    by (rule zdiv_mono1) simp_all
  have "(y + 1 - 1901) div 100 \<le> (y - 1901 + 100) div 100"
    by (rule zdiv_mono1) simp_all
  also have "\<dots> = (y - 1901) div 100 + 1"
    by simp
  finally have q100: "(y + 1 - 1901) div 100 \<le> (y - 1901) div 100 + 1" .
  have "DayFromYear y < DayFromYear (y + 1)"
    unfolding DayFromYear_def using q4 q100 q400 by simp
  with le show "((d, y + 1), (d, y)) \<in> measure (\<lambda>(d, y). nat (d - DayFromYear y))"
    by simp
qed

declare year_from.simps [simp del]

definition YearFromDay :: "int \<Rightarrow> int" where
  "YearFromDay d = year_from d (1970 + (if 0 \<le> d then d div 366 else d div 365))"

definition YearFromTime :: "time \<Rightarrow> int" where
  "YearFromTime t = YearFromDay (Day t)"

definition InLeapYear :: "time \<Rightarrow> int" where
  "InLeapYear t = (if DaysInYear (YearFromTime t) = 365 then 0 else 1)"

definition DayWithinYear :: "time \<Rightarrow> int" where
  "DayWithinYear t = Day t - DayFromYear (YearFromTime t)"

definition MonthFromTime :: "time \<Rightarrow> int" where
  "MonthFromTime t =
     (let d = DayWithinYear t; l = InLeapYear t in
      if d < 31 then 0
      else if d < 59 + l then 1
      else if d < 90 + l then 2
      else if d < 120 + l then 3
      else if d < 151 + l then 4
      else if d < 181 + l then 5
      else if d < 212 + l then 6
      else if d < 243 + l then 7
      else if d < 273 + l then 8
      else if d < 304 + l then 9
      else if d < 334 + l then 10
      else 11)"

definition DateFromTime :: "time \<Rightarrow> int" where
  "DateFromTime t =
     (let d = DayWithinYear t; l = InLeapYear t; m = MonthFromTime t in
      if m = 0 then d + 1
      else if m = 1 then d - 30
      else if m = 2 then d - 58 - l
      else if m = 3 then d - 89 - l
      else if m = 4 then d - 119 - l
      else if m = 5 then d - 150 - l
      else if m = 6 then d - 180 - l
      else if m = 7 then d - 211 - l
      else if m = 8 then d - 242 - l
      else if m = 9 then d - 272 - l
      else if m = 10 then d - 303 - l
      else d - 333 - l)"

definition HourFromTime :: "time \<Rightarrow> int" where
  "HourFromTime t = (t div 3600000) mod 24"

definition MinFromTime :: "time \<Rightarrow> int" where
  "MinFromTime t = (t div 60000) mod 60"

definition SecFromTime :: "time \<Rightarrow> int" where
  "SecFromTime t = (t div 1000) mod 60"

definition msFromTime :: "time \<Rightarrow> int" where
  "msFromTime t = t mod 1000"

definition ToZeroPaddedDecimalString :: "nat \<Rightarrow> nat \<Rightarrow> string" where
  "ToZeroPaddedDecimalString n minLength =
     replicate (minLength - length (decimal n)) (CHR ''0'') @ decimal n"

text \<open>Four digits for the years 0 to 9999, a sign and six digits for the others.\<close>

definition year_string :: "int \<Rightarrow> string" where
  "year_string y =
     (if 0 \<le> y \<and> y \<le> 9999 then ToZeroPaddedDecimalString (nat y) 4
      else (if 0 \<le> y then ''+'' else ''-'') @ ToZeroPaddedDecimalString (nat \<bar>y\<bar>) 6)"

definition toISOString :: "time \<Rightarrow> string" where
  "toISOString t =
     year_string (YearFromTime t) @ ''-''
     @ ToZeroPaddedDecimalString (nat (MonthFromTime t + 1)) 2 @ ''-''
     @ ToZeroPaddedDecimalString (nat (DateFromTime t)) 2 @ ''T''
     @ ToZeroPaddedDecimalString (nat (HourFromTime t)) 2 @ '':''
     @ ToZeroPaddedDecimalString (nat (MinFromTime t)) 2 @ '':''
     @ ToZeroPaddedDecimalString (nat (SecFromTime t)) 2 @ ''.''
     @ ToZeroPaddedDecimalString (nat (msFromTime t)) 3 @ ''Z''"

section \<open>Reading a date-time string\<close>

text \<open>
  What makes a string a valid date-time is again the platform's rule: the date-time
  string format of the ECMAScript specification, in its complete form with the offset
  \<^verbatim>\<open>Z\<close>. The reader below accepts exactly that form and returns the time value.
\<close>

definition digit_value :: "char \<Rightarrow> nat option" where
  "digit_value c =
     (let n = (of_char c :: nat) in if 48 \<le> n \<and> n \<le> 57 then Some (n - 48) else None)"

fun read_number :: "nat \<Rightarrow> nat \<Rightarrow> string \<Rightarrow> (nat \<times> string) option" where
  "read_number 0 acc s = Some (acc, s)"
| "read_number (Suc k) acc [] = None"
| "read_number (Suc k) acc (c # s) =
     (case digit_value c of None \<Rightarrow> None | Some d \<Rightarrow> read_number k (10 * acc + d) s)"

fun expect :: "char \<Rightarrow> string \<Rightarrow> string option" where
  "expect c [] = None"
| "expect c (x # s) = (if x = c then Some s else None)"

definition read_year :: "string \<Rightarrow> (int \<times> string) option" where
  "read_year s =
     (case s of
        [] \<Rightarrow> None
      | c # r \<Rightarrow>
          if c = CHR ''+'' then
            (case read_number 6 0 r of None \<Rightarrow> None | Some (n, r') \<Rightarrow> Some (int n, r'))
          else if c = CHR ''-'' then
            (case read_number 6 0 r of
               None \<Rightarrow> None
             | Some (n, r') \<Rightarrow> if n = 0 then None else Some (- int n, r'))
          else
            (case read_number 4 0 s of None \<Rightarrow> None | Some (n, r') \<Rightarrow> Some (int n, r')))"

definition month_start :: "int \<Rightarrow> int \<Rightarrow> int" where
  "month_start l m =
     (if m = 0 then 0
      else if m = 1 then 31
      else if m = 2 then 59 + l
      else if m = 3 then 90 + l
      else if m = 4 then 120 + l
      else if m = 5 then 151 + l
      else if m = 6 then 181 + l
      else if m = 7 then 212 + l
      else if m = 8 then 243 + l
      else if m = 9 then 273 + l
      else if m = 10 then 304 + l
      else 334 + l)"

definition MakeDay :: "int \<Rightarrow> int \<Rightarrow> int \<Rightarrow> int" where
  "MakeDay year month date =
     (let ym = year + month div 12; mn = month mod 12;
          l = (if DaysInYear ym = 365 then 0 else 1)
      in DayFromYear ym + month_start l mn + date - 1)"

definition MakeTime :: "int \<Rightarrow> int \<Rightarrow> int \<Rightarrow> int \<Rightarrow> int" where
  "MakeTime hour minute sec ms = hour * 3600000 + minute * 60000 + sec * 1000 + ms"

definition MakeDate :: "int \<Rightarrow> int \<Rightarrow> time" where
  "MakeDate day tm = day * msPerDay + tm"

text \<open>The time values a \<^verbatim>\<open>Date\<close> can hold: a hundred million days on each side of the epoch.\<close>

definition valid_time :: "time \<Rightarrow> bool" where
  "valid_time t = (\<bar>t\<bar> \<le> 8640000000000000)"

definition TimeClip :: "time \<Rightarrow> time option" where
  "TimeClip t = (if valid_time t then Some t else None)"

text \<open>A number of \<open>k\<close> digits followed by the separator \<open>c\<close>.\<close>

definition read_field :: "nat \<Rightarrow> char \<Rightarrow> string \<Rightarrow> (nat \<times> string) option" where
  "read_field k c s =
     Option.bind (read_number k 0 s) (\<lambda>(n, r). Option.bind (expect c r) (\<lambda>r'. Some (n, r')))"

definition make_time ::
  "int \<Rightarrow> nat \<Rightarrow> nat \<Rightarrow> nat \<Rightarrow> nat \<Rightarrow> nat \<Rightarrow> nat \<Rightarrow> time option" where
  "make_time year month date hour minute sec ms =
     (if month < 1 \<or> 12 < month \<or> date < 1 \<or> 31 < date
         \<or> 23 < hour \<or> 59 < minute \<or> 59 < sec
      then None
      else TimeClip (MakeDate (MakeDay year (int month - 1) (int date))
                              (MakeTime (int hour) (int minute) (int sec) (int ms))))"

definition parse_iso :: "string \<Rightarrow> time option" where
  "parse_iso s =
     Option.bind (read_year s) (\<lambda>(year, s1).
     Option.bind (expect (CHR ''-'') s1) (\<lambda>s2.
     Option.bind (read_field 2 (CHR ''-'') s2) (\<lambda>(month, s3).
     Option.bind (read_field 2 (CHR ''T'') s3) (\<lambda>(date, s4).
     Option.bind (read_field 2 (CHR '':'') s4) (\<lambda>(hour, s5).
     Option.bind (read_field 2 (CHR '':'') s5) (\<lambda>(minute, s6).
     Option.bind (read_field 2 (CHR ''.'') s6) (\<lambda>(sec, s7).
     Option.bind (read_field 3 (CHR ''Z'') s7) (\<lambda>(ms, s8).
     if s8 = [] then make_time year month date hour minute sec ms else None))))))))"

section \<open>The health route\<close>

text \<open>
  The handler reads the clock twice: \<open>now\<close> for the time stamp, \<open>now_log\<close> for the line
  it writes afterwards.
\<close>

definition health_handler ::
  "nat \<Rightarrow> (time \<Rightarrow> string) \<Rightarrow> time \<Rightarrow> time \<Rightarrow> process
     \<Rightarrow> js_error + 'n res \<times> process" where
  "health_handler stack toLocaleTimeString now now_log p =
     (let healthStatus = JObject
            [(''status'', JString ''ok''),
             (''message'', JString ''Service is healthy''),
             (''timestamp'', JString (toISOString now))];
          p1 = stdout_write ([CHR 0x0A] @ ''['' @ toLocaleTimeString now_log
                 @ ''] Health check successful.'' @ [CHR 0x0A]) p
      in case res_json stack healthStatus (res_status 200 express_res) of
           Inl e \<Rightarrow> Inl e
         | Inr r \<Rightarrow> Inr (r, p1))"

section \<open>The relay routes\<close>

text \<open>
  What the handlers read of a fetch \<^verbatim>\<open>Response\<close>: its status, and the outcome of
  \<^verbatim>\<open>response.json()\<close>, which rejects when the body is not JSON.
\<close>

record 'n response =
  status :: nat
  json :: "js_error + 'n json"

text \<open>\<^verbatim>\<open>response.ok\<close> is the platform's: true for the statuses 200 to 299.\<close>

definition ok :: "'n response \<Rightarrow> bool" where
  "ok r = (200 \<le> status r \<and> status r \<le> 299)"

text \<open>
  The network is the argument \<open>fetch\<close>: the outcome of \<^verbatim>\<open>await fetch(url)\<close> for each
  address, a rejection (\<open>Inl\<close>) or a response.

  The \<^verbatim>\<open>try\<close> block holds the fetch, the status check, the parse and the sending of
  the parsed value: a throw of any of the four is handled by the \<^verbatim>\<open>catch\<close>. The
  \<^verbatim>\<open>catch\<close> block sends in its turn, outside any \<^verbatim>\<open>try\<close>.
\<close>

type_synonym 'n fetch = "string \<Rightarrow> js_error + 'n response"

definition posts_handler ::
  "nat \<Rightarrow> (time \<Rightarrow> string) \<Rightarrow> time \<Rightarrow> 'n fetch \<Rightarrow> process
     \<Rightarrow> js_error + 'n res \<times> process" where
  "posts_handler stack toLocaleTimeString now fetch p =
     (let p1 = stdout_write ([CHR 0x0A] @ ''['' @ toLocaleTimeString now
                 @ ''] Request received for /posts. Fetching from external API...''
                 @ [CHR 0x0A]) p;
          try =
            (case fetch ''https://jsonplaceholder.typicode.com/posts'' of
               Inl e \<Rightarrow> Inl e
             | Inr response \<Rightarrow>
                 if \<not> ok response then
                   Inl (Error (''External API responded with status: ''
                                 @ decimal (status response)))
                 else
                   (case json response of
                      Inl e \<Rightarrow> Inl e
                    | Inr posts \<Rightarrow> res_json stack posts (res_status 200 express_res)))
      in case try of
           Inr r \<Rightarrow> Inr (r, p1)
         | Inl error \<Rightarrow>
             (let p2 = console_error ''Error fetching from JSONPlaceholder:'' (message error) p1
              in case res_json stack
                        (JObject [(''message'',
                                   JString ''Failed to fetch posts from external service.'')])
                        (res_status 500 express_res) of
                   Inl e \<Rightarrow> Inl e
                 | Inr r \<Rightarrow> Inr (r, p2)))"

definition random_fact_handler ::
  "nat \<Rightarrow> (time \<Rightarrow> string) \<Rightarrow> time \<Rightarrow> 'n fetch \<Rightarrow> process
     \<Rightarrow> js_error + 'n res \<times> process" where
  "random_fact_handler stack toLocaleTimeString now fetch p =
     (let p1 = stdout_write ([CHR 0x0A] @ ''['' @ toLocaleTimeString now
                 @ ''] Request received for /random-fact. Fetching from external API...''
                 @ [CHR 0x0A]) p;
          try =
            (case fetch ''https://uselessfacts.jsph.pl/random.json?language=en'' of
               Inl e \<Rightarrow> Inl e
             | Inr response \<Rightarrow>
                 if \<not> ok response then
                   Inl (Error (''External API responded with status: ''
                                 @ decimal (status response)))
                 else
                   (case json response of
                      Inl e \<Rightarrow> Inl e
                    | Inr fact1 \<Rightarrow> res_json stack fact1 (res_status 200 express_res)))
      in case try of
           Inr r \<Rightarrow> Inr (r, p1)
         | Inl error \<Rightarrow>
             (let p2 = console_error ''Error fetching from Useless Facts API:'' (message error) p1
              in case res_json stack
                        (JObject [(''message'', JString ''Failed to fetch a random fact.'')])
                        (res_status 500 express_res) of
                   Inl e \<Rightarrow> Inl e
                 | Inr r \<Rightarrow> Inr (r, p2)))"

section \<open>Routing and the event loop\<close>

datatype route = Root | Health | Env | Posts | RandomFact

text \<open>
  The routes registered with \<^verbatim>\<open>app.get\<close>. A request carries what its handler reads
  from outside the process: the clock readings and the network.
\<close>

definition dispatch ::
  "nat \<Rightarrow> (time \<Rightarrow> string) \<Rightarrow> route \<Rightarrow> time \<Rightarrow> time \<Rightarrow> 'n fetch \<Rightarrow> process
     \<Rightarrow> js_error + 'n res \<times> process" where
  "dispatch stack toLocaleTimeString r now now_log fetch p =
     (case r of
        Root \<Rightarrow> Inr (root_handler, p)
      | Health \<Rightarrow> health_handler stack toLocaleTimeString now now_log p
      | Env \<Rightarrow> env_handler stack toLocaleTimeString now p
      | Posts \<Rightarrow> posts_handler stack toLocaleTimeString now fetch p
      | RandomFact \<Rightarrow> random_fact_handler stack toLocaleTimeString now fetch p)"

text \<open>
  The process after \<^verbatim>\<open>app.listen\<close>: it takes timer ticks and requests one at a time.
  An error that escapes a handler ends the run, as an unhandled rejection ends a Node
  process. A relay handler is taken as one step; what it writes before and after its
  \<^verbatim>\<open>await\<close> goes to streams that are only appended to.
\<close>

datatype 'n event = Tick time | Get route time time "'n fetch"

fun serve ::
  "nat \<Rightarrow> (time \<Rightarrow> string) \<Rightarrow> 'n event list \<Rightarrow> process
     \<Rightarrow> js_error + 'n res list \<times> process" where
  "serve stack toLocaleTimeString [] p = Inr ([], p)"
| "serve stack toLocaleTimeString (Tick now # evs) p =
     serve stack toLocaleTimeString evs (tick toLocaleTimeString now p)"
| "serve stack toLocaleTimeString (Get r now now_log fetch # evs) p =
     (case dispatch stack toLocaleTimeString r now now_log fetch p of
        Inl e \<Rightarrow> Inl e
      | Inr (r1, p1) \<Rightarrow>
          (case serve stack toLocaleTimeString evs p1 of
             Inl e \<Rightarrow> Inl e
           | Inr (rs, p2) \<Rightarrow> Inr (r1 # rs, p2)))"

fun is_request :: "'n event \<Rightarrow> bool" where
  "is_request (Tick now) = False"
| "is_request (Get r now now_log fetch) = True"

fun is_tick :: "'n event \<Rightarrow> bool" where
  "is_tick (Tick now) = True"
| "is_tick (Get r now now_log fetch) = False"

section \<open>Vocabulary of the properties\<close>

text \<open>
  The shape of a response body: the body with the value of a top-level \<^verbatim>\<open>timestamp\<close>
  property blanked.
\<close>

definition shape :: "'n payload option \<Rightarrow> 'n payload option" where
  "shape b =
     (case b of
        Some (Json (JObject kvs)) \<Rightarrow>
          Some (Json (JObject (map (\<lambda>(k, v). if k = ''timestamp'' then (k, JNull) else (k, v)) kvs)))
      | _ \<Rightarrow> b)"

text \<open>Reading a property of a JSON object; \<^verbatim>\<open>undefined\<close> is \<open>None\<close>.\<close>

definition property :: "string \<Rightarrow> 'n json \<Rightarrow> 'n json option" where
  "property k v = (case v of JObject kvs \<Rightarrow> map_of kvs k | _ \<Rightarrow> None)"

definition json_of :: "'n res \<Rightarrow> 'n json option" where
  "json_of r = (case sent r of Some (Json v) \<Rightarrow> Some v | _ \<Rightarrow> None)"

text \<open>The \<^verbatim>\<open>timestamp\<close> that a handler's outcome carries, if it carries one.\<close>

definition timestamp_of :: "js_error + 'n res \<times> process \<Rightarrow> 'n json option" where
  "timestamp_of out =
     (case out of
        Inl e \<Rightarrow> None
      | Inr (r, p) \<Rightarrow> Option.bind (json_of r) (property ''timestamp''))"

text \<open>The response of a handler's outcome, without the process.\<close>

definition response_of :: "js_error + 'n res \<times> process \<Rightarrow> js_error + 'n res" where
  "response_of out = map_sum id fst out"

text \<open>
  The upstream fails for an address when the fetch is rejected, or answers with a status
  outside 200 to 299, or with a body that is not JSON.
\<close>

definition upstream_fails :: "'n fetch \<Rightarrow> string \<Rightarrow> bool" where
  "upstream_fails fetch url =
     (case fetch url of
        Inl e \<Rightarrow> True
      | Inr response \<Rightarrow>
          status response < 200 \<or> 299 < status response
          \<or> (case json response of Inl e \<Rightarrow> True | Inr v \<Rightarrow> False))"

definition failure_response :: "string \<Rightarrow> 'n res" where
  "failure_response msg =
     \<lparr>statusCode = 500, sent = Some (Json (JObject [(''message'', JString msg)]))\<rparr>"

text \<open>
  A value is plain when no number in it is an infinity or the negative zero: the values
  that the serialiser hands on as they are.
\<close>

primrec plain :: "'n json \<Rightarrow> bool" where
  "plain JNull = True"
| "plain (JBool b) = True"
| "plain (JNumber x) =
     (case x of NegZero \<Rightarrow> False | PosInfinity \<Rightarrow> False | NegInfinity \<Rightarrow> False | _ \<Rightarrow> True)"
| "plain (JString s) = True"
| "plain (JArray vs) = list_all id (map plain vs)"
| "plain (JObject kvs) = list_all snd (map (map_prod id plain) kvs)"

text \<open>
  What a relay is to answer, said without the handler: the fixed failure when the
  upstream fails or the parsed value is nested too deep to be serialised, and otherwise
  status 200 with the parsed value as serialised.
\<close>

definition relay_answer :: "nat \<Rightarrow> 'n fetch \<Rightarrow> string \<Rightarrow> string \<Rightarrow> 'n res" where
  "relay_answer stack fetch url msg =
     (case fetch url of
        Inl e \<Rightarrow> failure_response msg
      | Inr response \<Rightarrow>
          if status response < 200 \<or> 299 < status response then failure_response msg
          else
            (case json response of
               Inl e \<Rightarrow> failure_response msg
             | Inr v \<Rightarrow>
                 if stack + 2 < nesting v then failure_response msg
                 else \<lparr>statusCode = 200, sent = Some (Json (serialised v))\<rparr>))"

text \<open>What each route is to answer, said without the handlers.\<close>

definition route_answer ::
  "nat \<Rightarrow> (string \<rightharpoonup> string) \<Rightarrow> route \<Rightarrow> time \<Rightarrow> 'n fetch \<Rightarrow> 'n res" where
  "route_answer stack e r now fetch =
     (case r of
        Root \<Rightarrow>
          \<lparr>statusCode = 200, sent = Some (Text ''Hello, World! The server is running.'')\<rparr>
      | Health \<Rightarrow>
          \<lparr>statusCode = 200,
           sent = Some (Json (JObject
             [(''status'', JString ''ok''),
              (''message'', JString ''Service is healthy''),
              (''timestamp'', JString (toISOString now))]))\<rparr>
      | Env \<Rightarrow>
          \<lparr>statusCode = 200,
           sent = Some (Json (JObject
             [(''message'', JString ''Environment variables as seen by the Node.js process:''),
              (''variables'', JObject (map
                 (\<lambda>k. (k, JString (case e k of
                                      None \<Rightarrow> ''NOT FOUND''
                                    | Some s \<Rightarrow> if s = [] then ''NOT FOUND'' else s)))
                 [''testkey1'', ''testkey2'', ''testkey3'', ''testkey4'',
                  ''KUBERNETES_SERVICE_HOST'']))]))\<rparr>
      | Posts \<Rightarrow>
          relay_answer stack fetch ''https://jsonplaceholder.typicode.com/posts''
            ''Failed to fetch posts from external service.''
      | RandomFact \<Rightarrow>
          relay_answer stack fetch ''https://uselessfacts.jsph.pl/random.json?language=en''
            ''Failed to fetch a random fact.'')"

fun answers :: "nat \<Rightarrow> (string \<rightharpoonup> string) \<Rightarrow> 'n event list \<Rightarrow> 'n res list" where
  "answers stack e [] = []"
| "answers stack e (Tick now # evs) = answers stack e evs"
| "answers stack e (Get r now now_log fetch # evs) =
     route_answer stack e r now fetch # answers stack e evs"


subsection \<open>Sample inputs\<close>

definition sample_clock :: "time \<Rightarrow> string" where
  "sample_clock t = ''11:05:00 AM''"

definition sample_posts :: "int json" where
  "sample_posts = JArray
     [JObject [(''userId'', JNumber (Finite 1)), (''id'', JNumber (Finite 1)),
               (''title'', JString ''sunt aut facere''), (''body'', JString ''quia et suscipit'')],
      JObject [(''userId'', JNumber (Finite 1)), (''id'', JNumber (Finite 2)),
               (''title'', JString ''qui est esse''), (''body'', JString ''est rerum tempore'')]]"

definition sample_fact :: "int json" where
  "sample_fact = JObject
     [(''id'', JString ''a1b2''), (''text'', JString ''Honey never spoils.''),
      (''language'', JString ''en'')]"

definition upstream_up :: "int fetch" where
  "upstream_up url =
     (if url = ''https://jsonplaceholder.typicode.com/posts''
      then Inr \<lparr>status = 200, json = Inr sample_posts\<rparr>
      else Inr \<lparr>status = 200, json = Inr sample_fact\<rparr>)"

definition upstream_404 :: "int fetch" where
  "upstream_404 url = Inr \<lparr>status = 404, json = Inr (JObject [])\<rparr>"

definition upstream_down :: "int fetch" where
  "upstream_down url = Inl (Error ''fetch failed'')"

definition upstream_html :: "int fetch" where
  "upstream_html url = Inr \<lparr>status = 200, json = Inl (Error ''Unexpected token <'')\<rparr>"

text \<open>An upstream whose body is \<^verbatim>\<open>[1e400]\<close>, parsed as an array of one infinity.\<close>

definition upstream_infinity :: "int fetch" where
  "upstream_infinity url = Inr \<lparr>status = 200, json = Inr (JArray [JNumber PosInfinity])\<rparr>"

text \<open>Arrays nested in arrays: \<open>nested n\<close> is \<open>n\<close> brackets around an empty array.\<close>

primrec nested :: "nat \<Rightarrow> int json" where
  "nested 0 = JArray []"
| "nested (Suc n) = JArray [nested n]"

definition upstream_nested :: "int fetch" where
  "upstream_nested url = Inr \<lparr>status = 200, json = Inr (nested 5000)\<rparr>"

section \<open>Properties\<close>

subsection \<open>What the handlers leave alone\<close>

lemma stdout_write_fields [simp]:
  "env (stdout_write s p) = env p"
  "spinnerIndex (stdout_write s p) = spinnerIndex p"
  "stderr (stdout_write s p) = stderr p"
  by (simp_all add: stdout_write_def)

lemma console_error_fields [simp]:
  "env (console_error a b p) = env p"
  "spinnerIndex (console_error a b p) = spinnerIndex p"
  "stdout (console_error a b p) = stdout p"
  by (simp_all add: console_error_def)

lemma tick_fields:
  "env (tick lts now p) = env p"
  "spinnerIndex (tick lts now p) = (spinnerIndex p + 1) mod 4"
  by (simp_all add: tick_def Let_def spinnerChars_def)

subsection \<open>Sending\<close>

lemma res_send_fresh [simp]:
  "res_send s express_res = \<lparr>statusCode = 200, sent = Some (Text s)\<rparr>"
  by (simp add: res_send_def express_res_def)

lemma res_json_fresh:
  "res_json stack v (res_status c express_res) =
     (if nesting v \<le> stack + 2 then Inr \<lparr>statusCode = c, sent = Some (Json (serialised v))\<rparr>
      else Inl (Error ''Maximum call stack size exceeded''))"
  by (simp add: res_json_def JSON_stringify_def res_status_def express_res_def)

lemma res_json_message [simp]:
  "res_json stack (JObject [(''message'', JString m)]) (res_status c express_res) =
     Inr \<lparr>statusCode = c, sent = Some (Json (JObject [(''message'', JString m)]))\<rparr>"
  by (simp add: res_json_fresh)

lemma serialised_plain: "plain v \<Longrightarrow> serialised v = v"
proof (induction v)
  case (JNumber x)
  then show ?case by (cases x) simp_all
next
  case (JArray vs)
  then have "map serialised vs = vs"
    by (simp add: list_all_iff map_idI)
  then show ?case by simp
next
  case (JObject kvs)
  have "map_prod id serialised kv = kv" if "kv \<in> set kvs" for kv
  proof (cases kv)
    case (Pair k v)
    with that JObject.prems have "plain v"
      by (fastforce simp: list_all_iff)
    with that Pair JObject.IH [of kv v] show ?thesis by simp
  qed
  then have "map (map_prod id serialised) kvs = kvs"
    by (simp add: map_idI)
  then show ?case by simp
qed simp_all

lemma nesting_nested [simp]: "nesting (nested n) = Suc n"
  by (induction n) simp_all

subsection \<open>The relays answer as they are to\<close>

lemma relay_answer_failure:
  "upstream_fails fetch url \<Longrightarrow> relay_answer stack fetch url msg = failure_response msg"
  by (auto simp: upstream_fails_def relay_answer_def split: sum.splits)

lemma relay_answer_status:
  "statusCode (relay_answer stack fetch url msg) = 200
   \<or> statusCode (relay_answer stack fetch url msg) = 500"
  by (simp add: relay_answer_def failure_response_def split: sum.splits)

lemma posts_handler_answer:
  "\<exists>p'. posts_handler stack lts now fetch p =
           Inr (relay_answer stack fetch ''https://jsonplaceholder.typicode.com/posts''
                  ''Failed to fetch posts from external service.'', p')
        \<and> env p' = env p \<and> spinnerIndex p' = spinnerIndex p"
  unfolding posts_handler_def relay_answer_def failure_response_def ok_def Let_def
  by (auto simp: res_json_fresh split: sum.splits)

lemma random_fact_handler_answer:
  "\<exists>p'. random_fact_handler stack lts now fetch p =
           Inr (relay_answer stack fetch ''https://uselessfacts.jsph.pl/random.json?language=en''
                  ''Failed to fetch a random fact.'', p')
        \<and> env p' = env p \<and> spinnerIndex p' = spinnerIndex p"
  unfolding random_fact_handler_def relay_answer_def failure_response_def ok_def Let_def
  by (auto simp: res_json_fresh split: sum.splits)

subsection \<open>The routes that the server answers itself\<close>

lemma health_handler_answer:
  "\<exists>p'. health_handler stack lts now now_log p =
           Inr (\<lparr>statusCode = 200,
                 sent = Some (Json (JObject
                   [(''status'', JString ''ok''),
                    (''message'', JString ''Service is healthy''),
                    (''timestamp'', JString (toISOString now))]))\<rparr>, p')
        \<and> env p' = env p \<and> spinnerIndex p' = spinnerIndex p"
  by (simp add: health_handler_def Let_def res_json_fresh)

lemma env_handler_answer:
  "\<exists>p'. env_handler stack lts now p =
           Inr (\<lparr>statusCode = 200,
                 sent = Some (Json (JObject
                   [(''message'',
                     JString ''Environment variables as seen by the Node.js process:''),
                    (''variables'', relevantEnvVars (env p))]))\<rparr>, p')
        \<and> env p' = env p \<and> spinnerIndex p' = spinnerIndex p"
  by (simp add: env_handler_def Let_def res_json_fresh relevantEnvVars_def)

lemma health_handler_response:
  "response_of (health_handler stack lts now now_log p) =
     Inr \<lparr>statusCode = 200,
          sent = Some (Json (JObject
            [(''status'', JString ''ok''),
             (''message'', JString ''Service is healthy''),
             (''timestamp'', JString (toISOString now))]))\<rparr>"
  by (simp add: response_of_def health_handler_def Let_def res_json_fresh)

lemma health_handler_timestamp:
  "timestamp_of (health_handler stack lts now now_log p) = Some (JString (toISOString now))"
  by (simp add: timestamp_of_def json_of_def property_def health_handler_def Let_def
                res_json_fresh)

lemma env_handler_response:
  "response_of (env_handler stack lts now p) =
     Inr \<lparr>statusCode = 200,
          sent = Some (Json (JObject
            [(''message'', JString ''Environment variables as seen by the Node.js process:''),
             (''variables'', relevantEnvVars (env p))]))\<rparr>"
  by (simp add: response_of_def env_handler_def Let_def res_json_fresh relevantEnvVars_def)

subsection \<open>Every request is answered\<close>

lemma dispatch_answer:
  "\<exists>p'. dispatch stack lts rt now now_log fetch p
           = Inr (route_answer stack (env p) rt now fetch, p')
        \<and> env p' = env p \<and> spinnerIndex p' = spinnerIndex p"
proof (cases rt)
  case Root
  then show ?thesis by (simp add: dispatch_def route_answer_def root_handler_def)
next
  case Health
  with health_handler_answer [of stack lts now now_log p] show ?thesis
    by (simp add: dispatch_def route_answer_def)
next
  case Env
  with env_handler_answer [of stack lts now p] show ?thesis
    by (simp add: dispatch_def route_answer_def relevantEnvVars_def js_or_def)
next
  case Posts
  with posts_handler_answer [of stack lts now fetch p] show ?thesis
    by (simp add: dispatch_def route_answer_def)
next
  case RandomFact
  with random_fact_handler_answer [of stack lts now fetch p] show ?thesis
    by (simp add: dispatch_def route_answer_def)
qed

lemma length_answers: "length (answers stack e evs) = length (filter is_request evs)"
  by (induction stack e evs rule: answers.induct) simp_all

lemma serve_answers:
  "\<exists>p'. serve stack lts evs p = Inr (answers stack (env p) evs, p')
      \<and> env p' = env p
      \<and> spinnerIndex p' mod 4 = (spinnerIndex p + length (filter is_tick evs)) mod 4
      \<and> (spinnerIndex p < 4 \<longrightarrow> spinnerIndex p' < 4)"
proof (induction evs arbitrary: p)
  case Nil
  show ?case by simp
next
  case (Cons ev evs)
  show ?case
  proof (cases ev)
    case (Tick now)
    from Cons.IH [of "tick lts now p"] obtain p' where
      "serve stack lts evs (tick lts now p) = Inr (answers stack (env (tick lts now p)) evs, p')"
      "env p' = env (tick lts now p)"
      "spinnerIndex p' mod 4 = (spinnerIndex (tick lts now p) + length (filter is_tick evs)) mod 4"
      "spinnerIndex (tick lts now p) < 4 \<longrightarrow> spinnerIndex p' < 4"
      by blast
    with Tick show ?thesis
      by (simp add: tick_fields mod_simps)
  next
    case (Get rt now now_log fetch)
    from dispatch_answer [of stack lts rt now now_log fetch p] obtain p1 where
      d: "dispatch stack lts rt now now_log fetch p
            = Inr (route_answer stack (env p) rt now fetch, p1)"
         "env p1 = env p" "spinnerIndex p1 = spinnerIndex p"
      by blast
    from Cons.IH [of p1] obtain p' where
      "serve stack lts evs p1 = Inr (answers stack (env p1) evs, p')"
      "env p' = env p1"
      "spinnerIndex p' mod 4 = (spinnerIndex p1 + length (filter is_tick evs)) mod 4"
      "spinnerIndex p1 < 4 \<longrightarrow> spinnerIndex p' < 4"
      by blast
    with Get d show ?thesis
      by simp
  qed
qed

subsection \<open>Sample inputs evaluated\<close>

lemma sample_upstreams:
  "\<not> upstream_fails upstream_up ''https://jsonplaceholder.typicode.com/posts''"
  "upstream_fails upstream_404 ''https://jsonplaceholder.typicode.com/posts''"
  "upstream_fails upstream_404 ''https://uselessfacts.jsph.pl/random.json?language=en''"
  "upstream_fails upstream_down ''https://jsonplaceholder.typicode.com/posts''"
  "upstream_fails upstream_down ''https://uselessfacts.jsph.pl/random.json?language=en''"
  "upstream_fails upstream_html ''https://jsonplaceholder.typicode.com/posts''"
  "upstream_fails upstream_html ''https://uselessfacts.jsph.pl/random.json?language=en''"
  by (simp_all add: upstream_fails_def upstream_up_def upstream_404_def upstream_down_def
                    upstream_html_def)

lemma sample_posts_facts:
  "plain sample_posts" "nesting sample_posts = 2" "serialised sample_posts = sample_posts"
  by (simp_all add: sample_posts_def)

lemma sample_fact_facts:
  "plain sample_fact" "nesting sample_fact = 1" "serialised sample_fact = sample_fact"
  by (simp_all add: sample_fact_def)

lemma sample_relay_answers:
  "relay_answer 2000 upstream_up ''https://jsonplaceholder.typicode.com/posts'' msg
     = \<lparr>statusCode = 200, sent = Some (Json sample_posts)\<rparr>"
  "relay_answer 2000 upstream_up ''https://uselessfacts.jsph.pl/random.json?language=en'' msg
     = \<lparr>statusCode = 200, sent = Some (Json sample_fact)\<rparr>"
  "relay_answer 2000 upstream_infinity url msg
     = \<lparr>statusCode = 200, sent = Some (Json (JArray [JNull]))\<rparr>"
  "relay_answer 2000 upstream_nested url msg = failure_response msg"
  "relay_answer 2000 upstream_404 url msg = failure_response msg"
  "relay_answer 2000 upstream_down url msg = failure_response msg"
  "relay_answer 2000 upstream_html url msg = failure_response msg"
  by (simp_all add: relay_answer_def upstream_up_def upstream_infinity_def upstream_nested_def
                    upstream_404_def upstream_down_def upstream_html_def
                    sample_posts_facts sample_fact_facts)

subsection \<open>Digits written and read back\<close>

lemma digit_value_digit_char: "d < 10 \<Longrightarrow> digit_value (digit_char d) = Some d"
  by (simp add: digit_value_def digit_char_def Let_def)

lemma read_number_append:
  "read_number (m + n) acc s = Option.bind (read_number m acc s) (\<lambda>(a, r). read_number n a r)"
proof (induction m arbitrary: acc s)
  case 0
  show ?case by simp
next
  case (Suc m)
  show ?case
  proof (cases s)
    case Nil
    then show ?thesis by simp
  next
    case (Cons c r)
    with Suc show ?thesis by (simp split: option.splits)
  qed
qed

lemma read_number_decimal:
  "read_number (length (decimal v)) acc (decimal v @ rest)
     = Some (acc * 10 ^ length (decimal v) + v, rest)"
proof (induction v arbitrary: acc rest rule: decimal.induct)
  case (1 n)
  show ?case
  proof (cases "n < 10")
    case True
    then show ?thesis
      by (simp add: decimal.simps [of n] digit_value_digit_char)
  next
    case False
    let ?L = "length (decimal (n div 10))"
    have d: "decimal n = decimal (n div 10) @ [digit_char (n mod 10)]"
      using False by (simp add: decimal.simps [of n])
    have "read_number (?L + 1) acc (decimal (n div 10) @ (digit_char (n mod 10) # rest))
            = Some (acc * 10 ^ (?L + 1) + n, rest)"
      unfolding read_number_append
      using "1.IH" [OF False, of acc "digit_char (n mod 10) # rest"]
      by (simp add: digit_value_digit_char algebra_simps)
    then show ?thesis by (simp add: d)
  qed
qed

lemma read_number_zeros:
  "read_number k acc (replicate k (CHR ''0'') @ rest) = Some (acc * 10 ^ k, rest)"
proof (induction k arbitrary: acc)
  case 0
  show ?case by simp
next
  case (Suc k)
  have "digit_value (CHR ''0'') = Some 0"
    by (simp add: digit_value_def)
  with Suc show ?case by simp
qed

lemma length_decimal_le: "v < 10 ^ k \<Longrightarrow> 0 < k \<Longrightarrow> length (decimal v) \<le> k"
proof (induction v arbitrary: k rule: decimal.induct)
  case (1 n)
  show ?case
  proof (cases "n < 10")
    case True
    with "1.prems" show ?thesis by (simp add: decimal.simps [of n])
  next
    case False
    from "1.prems" obtain j where k: "k = Suc j" by (cases k) auto
    from False "1.prems" k have j: "0 < j" by (cases j) auto
    from "1.prems" k have "n div 10 < 10 ^ j" by (simp add: less_mult_imp_div_less mult.commute)
    from "1.IH" [OF False this j] False k show ?thesis
      by (simp add: decimal.simps [of n])
  qed
qed

lemma read_number_padded:
  assumes "v < 10 ^ k" and "0 < k"
  shows "read_number k 0 (ToZeroPaddedDecimalString v k @ rest) = Some (v, rest)"
proof -
  let ?L = "length (decimal v)"
  have le: "?L \<le> k" using assms by (rule length_decimal_le)
  then have "read_number k 0 (ToZeroPaddedDecimalString v k @ rest)
     = read_number ((k - ?L) + ?L) 0 (replicate (k - ?L) (CHR ''0'') @ (decimal v @ rest))"
    by (simp add: ToZeroPaddedDecimalString_def)
  also have "\<dots> = Some (v, rest)"
    unfolding read_number_append by (simp add: read_number_zeros read_number_decimal)
  finally show ?thesis .
qed

lemma read_field_padded:
  assumes "v < 10 ^ k" and "0 < k"
  shows "read_field k c (ToZeroPaddedDecimalString v k @ c # rest) = Some (v, rest)"
  by (simp add: read_field_def read_number_padded [OF assms])


lemma digit_char_not_sign:
  assumes "d < 10"
  shows "digit_char d \<noteq> CHR ''+''" and "digit_char d \<noteq> CHR ''-''"
proof -
  have "digit_value (CHR ''+'') = None" "digit_value (CHR ''-'') = None"
    by (simp_all add: digit_value_def)
  with digit_value_digit_char [OF assms]
  show "digit_char d \<noteq> CHR ''+''" and "digit_char d \<noteq> CHR ''-''"
    by auto
qed

lemma decimal_digits: "c \<in> set (decimal v) \<Longrightarrow> \<exists>d<10. c = digit_char d"
proof (induction v rule: decimal.induct)
  case (1 n)
  show ?case
  proof (cases "n < 10")
    case True
    with "1.prems" show ?thesis by (auto simp: decimal.simps [of n])
  next
    case False
    with "1.prems" have "c \<in> set (decimal (n div 10)) \<or> c = digit_char (n mod 10)"
      by (auto simp: decimal.simps [of n])
    then show ?thesis
    proof
      assume "c \<in> set (decimal (n div 10))"
      with "1.IH" [OF False] show ?thesis .
    next
      assume "c = digit_char (n mod 10)"
      moreover have "n mod 10 < 10" by simp
      ultimately show ?thesis by blast
    qed
  qed
qed

lemma decimal_nonempty: "decimal v \<noteq> []"
  by (subst decimal.simps) simp

lemma digit_char_0: "digit_char 0 = CHR ''0''"
  by code_simp

lemma padded_head:
  "\<exists>d r. d < 10 \<and> ToZeroPaddedDecimalString v k = digit_char d # r"
proof (cases "ToZeroPaddedDecimalString v k")
  case Nil
  then show ?thesis by (simp add: ToZeroPaddedDecimalString_def decimal_nonempty)
next
  case (Cons c r)
  then have "c \<in> set (replicate (k - length (decimal v)) (CHR ''0'')) \<or> c \<in> set (decimal v)"
    by (metis ToZeroPaddedDecimalString_def list.set_intros(1) set_append Un_iff)
  then have "\<exists>d<10. c = digit_char d"
  proof
    assume "c \<in> set (replicate (k - length (decimal v)) (CHR ''0''))"
    then have "c = digit_char 0" by (auto simp: digit_char_0)
    moreover have "(0::nat) < 10" by simp
    ultimately show ?thesis by blast
  next
    assume "c \<in> set (decimal v)"
    then show ?thesis by (rule decimal_digits)
  qed
  with Cons show ?thesis by auto
qed

lemma read_year_year_string:
  assumes "\<bar>y\<bar> < 1000000"
  shows "read_year (year_string y @ rest) = Some (y, rest)"
proof -
  consider (four) "0 \<le> y" "y \<le> 9999" | (plus) "9999 < y" | (minus) "y < 0"
    by linarith
  then show ?thesis
  proof cases
    case four
    then have v: "nat y < 10 ^ 4" by simp
    from padded_head [of "nat y" 4] obtain d r where
      d: "d < 10" and e: "ToZeroPaddedDecimalString (nat y) 4 = digit_char d # r"
      by blast
    have "read_number 4 0 (digit_char d # r @ rest) = Some (nat y, rest)"
      using read_number_padded [OF v, of rest] e by simp
    with four d e show ?thesis
      by (simp add: read_year_def year_string_def digit_char_not_sign)
  next
    case plus
    with assms have v: "nat \<bar>y\<bar> < 10 ^ 6" by simp
    from plus read_number_padded [OF v, of rest] show ?thesis
      by (simp add: read_year_def year_string_def)
  next
    case minus
    with assms have v: "nat \<bar>y\<bar> < 10 ^ 6" by simp
    from minus read_number_padded [OF v, of rest] show ?thesis
      by (simp add: read_year_def year_string_def)
  qed
qed


subsection \<open>Years and days\<close>

lemma div_succ:
  fixes a b :: int
  assumes "0 < b"
  shows "(a + 1) div b = a div b + (if (a + 1) mod b = 0 then 1 else 0)"
proof (cases "a mod b + 1 = b")
  case True
  have "a + 1 = b * (a div b) + (a mod b + 1)" by (simp add: algebra_simps)
  also have "\<dots> = b * (a div b + 1)" using True by (simp add: algebra_simps)
  finally have eq: "a + 1 = b * (a div b + 1)" .
  have "(a + 1) div b = a div b + 1" using assms by (subst eq) simp
  moreover have "(a + 1) mod b = 0" by (subst eq) simp
  ultimately show ?thesis by simp
next
  case False
  have lt: "a mod b + 1 < b" using False assms pos_mod_bound [of b a] by linarith
  have ge: "0 < a mod b + 1" using assms pos_mod_sign [of b a] by linarith
  have eq: "a + 1 = (a mod b + 1) + b * (a div b)" by (simp add: algebra_simps)
  have "(a mod b + 1 + b * (a div b)) div b = a div b + (a mod b + 1) div b"
    using assms by (intro div_mult_self2) simp
  with eq have "(a + 1) div b = (a mod b + 1) div b + a div b" by presburger
  moreover have "(a mod b + 1 + b * (a div b)) mod b = (a mod b + 1) mod b"
    by (rule mod_mult_self2)
  with eq have "(a + 1) mod b = (a mod b + 1) mod b" by presburger
  moreover have "(a mod b + 1) div b = 0" "(a mod b + 1) mod b = a mod b + 1"
    using lt ge by simp_all
  moreover have "a mod b + 1 \<noteq> 0" using ge by linarith
  ultimately show ?thesis by (simp only: if_False add_0 add_0_right)
qed

lemma divides_chain:
  fixes y :: int
  shows "y mod 100 = 0 \<Longrightarrow> y mod 4 = 0" and "y mod 400 = 0 \<Longrightarrow> y mod 100 = 0"
proof -
  assume "y mod 100 = 0"
  then have "100 dvd y" by (simp add: dvd_eq_mod_eq_0)
  moreover have "(4::int) dvd 100" by simp
  ultimately have "4 dvd y" using dvd_trans by blast
  then show "y mod 4 = 0" by (simp add: dvd_eq_mod_eq_0)
next
  assume "y mod 400 = 0"
  then have "400 dvd y" by (simp add: dvd_eq_mod_eq_0)
  moreover have "(100::int) dvd 400" by simp
  ultimately have "100 dvd y" using dvd_trans by blast
  then show "y mod 100 = 0" by (simp add: dvd_eq_mod_eq_0)
qed

lemma DayFromYear_step: "DayFromYear (y + 1) = DayFromYear y + DaysInYear y"
proof -
  have m4: "(y - 1968) mod 4 = y mod 4"
    using mod_mult_self1 [of y "-492" 4] by simp
  have m100: "(y - 1900) mod 100 = y mod 100"
    using mod_mult_self1 [of y "-19" 100] by simp
  have m400: "(y - 1600) mod 400 = y mod 400"
    using mod_mult_self1 [of y "-4" 400] by simp
  have 1: "(y + 1 - 1969) div 4 = (y - 1969) div 4 + (if y mod 4 = 0 then 1 else 0)"
    using div_succ [of 4 "y - 1969"] m4 by (simp add: algebra_simps)
  have 2: "(y + 1 - 1901) div 100 = (y - 1901) div 100 + (if y mod 100 = 0 then 1 else 0)"
    using div_succ [of 100 "y - 1901"] m100 by (simp add: algebra_simps)
  have 3: "(y + 1 - 1601) div 400 = (y - 1601) div 400 + (if y mod 400 = 0 then 1 else 0)"
    using div_succ [of 400 "y - 1601"] m400 by (simp add: algebra_simps)
  show ?thesis
    unfolding DayFromYear_def DaysInYear_def 1 2 3
    using divides_chain [of y] by auto
qed

lemma DaysInYear_range: "DaysInYear y = 365 \<or> DaysInYear y = 366"
  by (simp add: DaysInYear_def)

lemma DayFromYear_1970: "DayFromYear 1970 = 0"
  by (simp add: DayFromYear_def)

lemma DayFromYear_after:
  "365 * int n \<le> DayFromYear (1970 + int n) \<and> DayFromYear (1970 + int n) \<le> 366 * int n"
proof (induction n)
  case 0
  show ?case by (simp add: DayFromYear_1970)
next
  case (Suc n)
  have "DayFromYear (1970 + int (Suc n)) = DayFromYear (1970 + int n) + DaysInYear (1970 + int n)"
    using DayFromYear_step [of "1970 + int n"] by (simp add: algebra_simps)
  with Suc DaysInYear_range [of "1970 + int n"] show ?case by auto
qed

lemma DayFromYear_before: "DayFromYear (1970 - int n) \<le> - 365 * int n"
proof (induction n)
  case 0
  show ?case by (simp add: DayFromYear_1970)
next
  case (Suc n)
  have "DayFromYear (1970 - int n) = DayFromYear (1970 - int (Suc n)) + DaysInYear (1970 - int (Suc n))"
    using DayFromYear_step [of "1970 - int (Suc n)"] by (simp add: algebra_simps)
  with Suc DaysInYear_range [of "1970 - int (Suc n)"] show ?case by auto
qed

lemma year_from_bounds:
  "DayFromYear y \<le> d \<Longrightarrow>
     DayFromYear (year_from d y) \<le> d \<and> d < DayFromYear (year_from d y + 1)"
proof (induction d y rule: year_from.induct)
  case (1 d y)
  show ?case
  proof (cases "DayFromYear (y + 1) \<le> d")
    case True
    from "1.IH" [OF True True] True show ?thesis
      by (simp add: year_from.simps [of d y])
  next
    case False
    with "1.prems" show ?thesis
      by (simp add: year_from.simps [of d y])
  qed
qed

lemma year_start_le:
  "DayFromYear (1970 + (if 0 \<le> d then d div 366 else d div 365)) \<le> d"
proof (cases "0 \<le> d")
  case True
  then have k: "0 \<le> d div 366" by (simp add: pos_imp_zdiv_nonneg_iff)
  from DayFromYear_after [of "nat (d div 366)"] k
  have "DayFromYear (1970 + d div 366) \<le> 366 * (d div 366)" by simp
  also have "\<dots> \<le> d" by (simp add: algebra_simps)  
  finally show ?thesis using True by simp
next
  case False
  then have k: "d div 365 < 0" by (simp add: div_neg_pos_less0)
  from DayFromYear_before [of "nat (- (d div 365))"] k
  have "DayFromYear (1970 + d div 365) \<le> 365 * (d div 365)" by simp
  also have "\<dots> \<le> d" by (simp add: algebra_simps)
  finally show ?thesis using False by simp
qed

lemma YearFromDay_bounds:
  "DayFromYear (YearFromDay d) \<le> d" "d < DayFromYear (YearFromDay d + 1)"
  using year_from_bounds [OF year_start_le [of d]] by (simp_all add: YearFromDay_def)


text \<open>
  The year found by the search is the one the ECMAScript specification describes: the
  largest year whose first day is not after the given day.
\<close>

lemma DayFromYear_mono: "a \<le> b \<Longrightarrow> DayFromYear a \<le> DayFromYear b"
proof (induction "nat (b - a)" arbitrary: b)
  case 0
  then show ?case by simp
next
  case (Suc n)
  from Suc.hyps(2) have n: "n = nat (b - 1 - a)" and le: "a \<le> b - 1"
    by linarith+
  from Suc.hyps(1) [OF n le] have "DayFromYear a \<le> DayFromYear (b - 1)" .
  moreover have "DayFromYear (b - 1) \<le> DayFromYear b"
    using DayFromYear_step [of "b - 1"] DaysInYear_range [of "b - 1"] by auto
  ultimately show ?case by linarith
qed

lemma YearFromDay_largest: "DayFromYear y \<le> d \<longleftrightarrow> y \<le> YearFromDay d"
proof
  assume le: "DayFromYear y \<le> d"
  show "y \<le> YearFromDay d"
  proof (rule ccontr)
    assume "\<not> y \<le> YearFromDay d"
    then have "YearFromDay d + 1 \<le> y" by simp
    then have "DayFromYear (YearFromDay d + 1) \<le> DayFromYear y" by (rule DayFromYear_mono)
    with le YearFromDay_bounds(2) [of d] show False by linarith
  qed
next
  assume "y \<le> YearFromDay d"
  then have "DayFromYear y \<le> DayFromYear (YearFromDay d)" by (rule DayFromYear_mono)
  with YearFromDay_bounds(1) [of d] show "DayFromYear y \<le> d" by linarith
qed

lemma Day_range:
  assumes "valid_time t"
  shows "- 100000000 \<le> Day t" and "Day t \<le> 100000000"
proof -
  from assms have lo: "- 8640000000000000 \<le> t" and hi: "t \<le> 8640000000000000"
    by (simp_all add: valid_time_def)
  have "(- 8640000000000000) div 86400000 \<le> t div (86400000::int)"
    using lo by (rule zdiv_mono1) simp
  then show "- 100000000 \<le> Day t" by (simp add: Day_def msPerDay_def)
  have "t div 86400000 \<le> 8640000000000000 div (86400000::int)"
    using hi by (rule zdiv_mono1) simp
  then show "Day t \<le> 100000000" by (simp add: Day_def msPerDay_def)
qed

lemma YearFromTime_range:
  assumes "valid_time t"
  shows "\<bar>YearFromTime t\<bar> < 1000000"
proof -
  let ?y = "YearFromTime t"
  have lo: "DayFromYear ?y \<le> Day t" and hi: "Day t < DayFromYear (?y + 1)"
    using YearFromDay_bounds(1) [of "Day t"] YearFromDay_bounds(2) [of "Day t"]
    by (simp_all add: YearFromTime_def)
  have "?y < 1000000"
  proof (rule ccontr)
    assume "\<not> ?y < 1000000"
    then have y: "1000000 \<le> ?y" by simp
    from DayFromYear_after [of "nat (?y - 1970)"] y
    have "365 * (?y - 1970) \<le> DayFromYear ?y" by simp
    with lo Day_range(2) [OF assms] y show False by simp
  qed
  moreover have "- 1000000 < ?y"
  proof (rule ccontr)
    assume "\<not> - 1000000 < ?y"
    then have y: "?y \<le> - 1000000" by simp
    from DayFromYear_before [of "nat (1969 - ?y)"] y
    have "DayFromYear (?y + 1) \<le> - 365 * (1969 - ?y)" by (simp add: algebra_simps)
    with hi Day_range(1) [OF assms] y show False by simp
  qed
  ultimately show ?thesis by linarith
qed

lemma InLeapYear_DaysInYear: "DaysInYear (YearFromTime t) = 365 + InLeapYear t"
  using DaysInYear_range [of "YearFromTime t"] by (auto simp: InLeapYear_def)

lemma InLeapYear_range: "InLeapYear t = 0 \<or> InLeapYear t = 1"
  by (simp add: InLeapYear_def)

lemma DayWithinYear_range:
  "0 \<le> DayWithinYear t" "DayWithinYear t < 365 + InLeapYear t"
proof -
  have lo: "DayFromYear (YearFromTime t) \<le> Day t"
    and hi: "Day t < DayFromYear (YearFromTime t + 1)"
    using YearFromDay_bounds(1) [of "Day t"] YearFromDay_bounds(2) [of "Day t"]
    by (simp_all add: YearFromTime_def)
  from lo show "0 \<le> DayWithinYear t" by (simp add: DayWithinYear_def)
  from hi DayFromYear_step [of "YearFromTime t"] InLeapYear_DaysInYear [of t]
  show "DayWithinYear t < 365 + InLeapYear t" by (simp add: DayWithinYear_def)
qed

text \<open>The month table, on a day number and a leap flag.\<close>

lemma month_table:
  fixes d l :: int
  assumes "0 \<le> d" and "d < 365 + l" and "l = 0 \<or> l = 1"
  defines "m \<equiv>
     (if d < 31 then 0
      else if d < 59 + l then 1
      else if d < 90 + l then 2
      else if d < 120 + l then 3
      else if d < 151 + l then 4
      else if d < 181 + l then 5
      else if d < 212 + l then 6
      else if d < 243 + l then 7
      else if d < 273 + l then 8
      else if d < 304 + l then 9
      else if d < 334 + l then 10
      else (11::int))"
  defines "dt \<equiv>
     (if m = 0 then d + 1
      else if m = 1 then d - 30
      else if m = 2 then d - 58 - l
      else if m = 3 then d - 89 - l
      else if m = 4 then d - 119 - l
      else if m = 5 then d - 150 - l
      else if m = 6 then d - 180 - l
      else if m = 7 then d - 211 - l
      else if m = 8 then d - 242 - l
      else if m = 9 then d - 272 - l
      else if m = 10 then d - 303 - l
      else d - 333 - l)"
  shows "0 \<le> m \<and> m \<le> 11 \<and> 1 \<le> dt \<and> dt \<le> 31 \<and> month_start l m + dt - 1 = d"
  using assms(1-3) unfolding m_def dt_def month_start_def
  by (auto split: if_splits)

lemma month_date:
  "0 \<le> MonthFromTime t" "MonthFromTime t \<le> 11"
  "1 \<le> DateFromTime t" "DateFromTime t \<le> 31"
  "month_start (InLeapYear t) (MonthFromTime t) + DateFromTime t - 1 = DayWithinYear t"
  using month_table [OF DayWithinYear_range(1) DayWithinYear_range(2) InLeapYear_range, of t]
  unfolding MonthFromTime_def DateFromTime_def Let_def
  by blast+

lemma MakeDay_inverse:
  "MakeDay (YearFromTime t) (MonthFromTime t) (DateFromTime t) = Day t"
proof -
  have "MonthFromTime t div 12 = 0" "MonthFromTime t mod 12 = MonthFromTime t"
    using month_date(1,2) [of t] by simp_all
  then have "MakeDay (YearFromTime t) (MonthFromTime t) (DateFromTime t)
      = DayFromYear (YearFromTime t)
        + (month_start (InLeapYear t) (MonthFromTime t) + DateFromTime t - 1)"
    by (simp add: MakeDay_def Let_def InLeapYear_def)
  then show ?thesis
    by (simp only: month_date(5) DayWithinYear_def)
qed


subsection \<open>A time stamp read back\<close>

lemma time_fields_range:
  "0 \<le> HourFromTime t" "HourFromTime t < 24"
  "0 \<le> MinFromTime t" "MinFromTime t < 60"
  "0 \<le> SecFromTime t" "SecFromTime t < 60"
  "0 \<le> msFromTime t" "msFromTime t < 1000"
  by (simp_all add: HourFromTime_def MinFromTime_def SecFromTime_def msFromTime_def)

lemma MakeDate_inverse:
  "MakeDate (Day t)
     (MakeTime (HourFromTime t) (MinFromTime t) (SecFromTime t) (msFromTime t)) = t"
proof -
  have a: "t div 60000 = (t div 1000) div 60"
    using zdiv_zmult2_eq [of 60 t 1000] by simp
  have b: "t div 3600000 = (t div 60000) div 60"
    using zdiv_zmult2_eq [of 60 t 60000] by simp
  have c: "t div 86400000 = (t div 3600000) div 24"
    using zdiv_zmult2_eq [of 24 t 3600000] by simp
  have ms: "t mod 1000 = t - 1000 * (t div 1000)"
    by (simp add: minus_mult_div_eq_mod)
  have sec: "(t div 1000) mod 60 = t div 1000 - 60 * (t div 60000)"
    unfolding a by (simp add: minus_mult_div_eq_mod)
  have mi: "(t div 60000) mod 60 = t div 60000 - 60 * (t div 3600000)"
    unfolding b by (simp add: minus_mult_div_eq_mod)
  have h: "(t div 3600000) mod 24 = t div 3600000 - 24 * (t div 86400000)"
    unfolding c by (simp add: minus_mult_div_eq_mod)
  show ?thesis
    unfolding MakeDate_def MakeTime_def Day_def msPerDay_def HourFromTime_def MinFromTime_def
      SecFromTime_def msFromTime_def ms sec mi h
    by simp
qed

lemma parse_iso_toISOString:
  assumes "valid_time t"
  shows "parse_iso (toISOString t) = Some t"
proof -
  let ?M = "nat (MonthFromTime t + 1)" and ?D = "nat (DateFromTime t)"
  let ?h = "nat (HourFromTime t)" and ?mi = "nat (MinFromTime t)"
  let ?s = "nat (SecFromTime t)" and ?ms = "nat (msFromTime t)"
  note md = month_date [of t] and tf = time_fields_range [of t]
  have r2: "?M < 10 ^ 2" "?D < 10 ^ 2" "?h < 10 ^ 2" "?mi < 10 ^ 2" "?s < 10 ^ 2"
    and r3: "?ms < 10 ^ 3"
    using md tf by simp_all
  have z: "(0::nat) < 2" "(0::nat) < 3" by simp_all
  have fields:
    "\<And>c rest. read_field 2 c (ToZeroPaddedDecimalString ?M 2 @ c # rest) = Some (?M, rest)"
    "\<And>c rest. read_field 2 c (ToZeroPaddedDecimalString ?D 2 @ c # rest) = Some (?D, rest)"
    "\<And>c rest. read_field 2 c (ToZeroPaddedDecimalString ?h 2 @ c # rest) = Some (?h, rest)"
    "\<And>c rest. read_field 2 c (ToZeroPaddedDecimalString ?mi 2 @ c # rest) = Some (?mi, rest)"
    "\<And>c rest. read_field 2 c (ToZeroPaddedDecimalString ?s 2 @ c # rest) = Some (?s, rest)"
    "\<And>c rest. read_field 3 c (ToZeroPaddedDecimalString ?ms 3 @ c # rest) = Some (?ms, rest)"
    using r2 r3 z by (simp_all add: read_field_padded)
  have mk: "make_time (YearFromTime t) ?M ?D ?h ?mi ?s ?ms = Some t"
  proof -
    have "int ?M - 1 = MonthFromTime t" "int ?D = DateFromTime t"
      "int ?h = HourFromTime t" "int ?mi = MinFromTime t"
      "int ?s = SecFromTime t" "int ?ms = msFromTime t"
      using md tf by simp_all
    moreover have "1 \<le> ?M" "?M \<le> 12" "1 \<le> ?D" "?D \<le> 31" "?h \<le> 23" "?mi \<le> 59" "?s \<le> 59"
      using md tf by linarith+
    then have "\<not> (?M < 1 \<or> 12 < ?M \<or> ?D < 1 \<or> 31 < ?D \<or> 23 < ?h \<or> 59 < ?mi \<or> 59 < ?s)"
      by linarith
    ultimately show ?thesis
      using assms
      by (simp only: make_time_def if_False MakeDay_inverse MakeDate_inverse TimeClip_def if_True)
  qed
  show ?thesis
    unfolding toISOString_def parse_iso_def
    by (simp add: read_year_year_string [OF YearFromTime_range [OF assms]] fields mk)
qed


section \<open>The claims\<close>

text \<open>
  C1. When the upstream fetch of \<^verbatim>\<open>GET /posts\<close> completes with a status from 200 to
  299 and a body that parses as JSON, and the parsed value is not nested deeper than the
  serialiser can take, the handler responds with status 200 and the parsed value as
  serialised: the parsed value itself when it is plain, and otherwise the parsed value
  with \<^verbatim>\<open>null\<close> for each infinity and \<^verbatim>\<open>0\<close> for each negative zero. When the value
  is nested too deep, the sending throws inside the \<^verbatim>\<open>try\<close> and the handler
  responds with its fixed 500.
\<close>

theorem posts_success:
  assumes "fetch ''https://jsonplaceholder.typicode.com/posts'' = Inr response"
    and "200 \<le> status response" and "status response \<le> 299"
    and "json response = Inr posts"
  shows "(nesting posts \<le> stack + 2 \<and> plain posts \<longrightarrow>
            (\<exists>p'. posts_handler stack lts now fetch p =
               Inr (\<lparr>statusCode = 200, sent = Some (Json posts)\<rparr>, p')))
         \<and> (nesting posts \<le> stack + 2 \<longrightarrow>
            (\<exists>p'. posts_handler stack lts now fetch p =
               Inr (\<lparr>statusCode = 200, sent = Some (Json (serialised posts))\<rparr>, p')))
         \<and> (stack + 2 < nesting posts \<longrightarrow>
            (\<exists>p'. posts_handler stack lts now fetch p =
               Inr (\<lparr>statusCode = 500,
                     sent = Some (Json (JObject
                       [(''message'',
                         JString ''Failed to fetch posts from external service.'')]))\<rparr>,
                    p')))"
proof -
  have a: "relay_answer stack fetch ''https://jsonplaceholder.typicode.com/posts'' msg =
             (if stack + 2 < nesting posts then failure_response msg
              else \<lparr>statusCode = 200, sent = Some (Json (serialised posts))\<rparr>)" for msg
    using assms by (simp add: relay_answer_def)
  from posts_handler_answer [of stack lts now fetch p] obtain p' where
    "posts_handler stack lts now fetch p =
       Inr (relay_answer stack fetch ''https://jsonplaceholder.typicode.com/posts''
              ''Failed to fetch posts from external service.'', p')"
    by blast
  then show ?thesis
    unfolding a by (auto simp: failure_response_def serialised_plain)
qed

theorem posts_success_witness:
  "upstream_up ''https://jsonplaceholder.typicode.com/posts''
     = Inr \<lparr>status = 200, json = Inr sample_posts\<rparr>
   \<and> nesting sample_posts \<le> 2000 + 2 \<and> plain sample_posts
   \<and> (\<exists>p'. posts_handler 2000 sample_clock 1793703900000 upstream_up
               (initial_process Map.empty) =
                Inr (\<lparr>statusCode = 200, sent = Some (Json sample_posts)\<rparr>, p'))
   \<and> upstream_nested ''https://jsonplaceholder.typicode.com/posts''
       = Inr \<lparr>status = 200, json = Inr (nested 5000)\<rparr>
   \<and> 2000 + 2 < nesting (nested 5000)
   \<and> (\<exists>p'. posts_handler 2000 sample_clock 1793703900000 upstream_nested
               (initial_process Map.empty) =
                Inr (\<lparr>statusCode = 500,
                      sent = Some (Json (JObject
                        [(''message'',
                          JString ''Failed to fetch posts from external service.'')]))\<rparr>,
                     p'))"
proof -
  have h: "upstream_up ''https://jsonplaceholder.typicode.com/posts''
             = Inr \<lparr>status = 200, json = Inr sample_posts\<rparr>"
    by (simp add: upstream_up_def)
  have g: "upstream_nested ''https://jsonplaceholder.typicode.com/posts''
             = Inr \<lparr>status = 200, json = Inr (nested 5000)\<rparr>"
    by (simp add: upstream_nested_def)
  have n: "nesting sample_posts \<le> 2000 + 2" "plain sample_posts"
    by (simp_all add: sample_posts_facts)
  have m: "2000 + 2 < nesting (nested 5000)"
    by simp
  from h n posts_success [where fetch = upstream_up and posts = sample_posts
                            and response = "\<lparr>status = 200, json = Inr sample_posts\<rparr>"
                            and stack = 2000 and lts = sample_clock and now = 1793703900000
                            and p = "initial_process Map.empty"]
  have 1: "\<exists>p'. posts_handler 2000 sample_clock 1793703900000 upstream_up
                 (initial_process Map.empty) =
                Inr (\<lparr>statusCode = 200, sent = Some (Json sample_posts)\<rparr>, p')"
    by simp
  from g m posts_success [where fetch = upstream_nested and posts = "nested 5000"
                            and response = "\<lparr>status = 200, json = Inr (nested 5000)\<rparr>"
                            and stack = 2000 and lts = sample_clock and now = 1793703900000
                            and p = "initial_process Map.empty"]
  have 2: "\<exists>p'. posts_handler 2000 sample_clock 1793703900000 upstream_nested
                 (initial_process Map.empty) =
                Inr (\<lparr>statusCode = 500,
                      sent = Some (Json (JObject
                        [(''message'',
                          JString ''Failed to fetch posts from external service.'')]))\<rparr>,
                     p')"
    by simp
  from h g n m 1 2 show ?thesis by blast
qed

text \<open>
  The claim as it was written fails twice. An upstream body \<^verbatim>\<open>[1e400]\<close> has status
  200 and parses, to an array of one infinity, and the body sent is \<^verbatim>\<open>[null]\<close>. An
  upstream body of 5000 nested arrays has status 200 and parses, and the answer is the
  fixed 500 on a platform whose serialiser takes 2002 levels.
\<close>

theorem posts_unmodified_counterexample:
  "upstream_infinity ''https://jsonplaceholder.typicode.com/posts''
     = Inr \<lparr>status = 200, json = Inr (JArray [JNumber PosInfinity])\<rparr>
   \<and> response_of (posts_handler 2000 sample_clock 1793703900000 upstream_infinity
                    (initial_process Map.empty))
       = Inr \<lparr>statusCode = 200, sent = Some (Json (JArray [JNull]))\<rparr>
   \<and> response_of (posts_handler 2000 sample_clock 1793703900000 upstream_infinity
                    (initial_process Map.empty))
       \<noteq> Inr \<lparr>statusCode = 200, sent = Some (Json (JArray [JNumber PosInfinity]))\<rparr>
   \<and> upstream_nested ''https://jsonplaceholder.typicode.com/posts''
       = Inr \<lparr>status = 200, json = Inr (nested 5000)\<rparr>
   \<and> response_of (posts_handler 2000 sample_clock 1793703900000 upstream_nested
                    (initial_process Map.empty))
       = Inr \<lparr>statusCode = 500,
               sent = Some (Json (JObject
                 [(''message'', JString ''Failed to fetch posts from external service.'')]))\<rparr>"
proof -
  from posts_handler_answer
         [of 2000 sample_clock 1793703900000 upstream_infinity "initial_process Map.empty"]
  have 1: "response_of (posts_handler 2000 sample_clock 1793703900000 upstream_infinity
                          (initial_process Map.empty))
             = Inr \<lparr>statusCode = 200, sent = Some (Json (JArray [JNull]))\<rparr>"
    by (auto simp: response_of_def sample_relay_answers)
  from posts_handler_answer
         [of 2000 sample_clock 1793703900000 upstream_nested "initial_process Map.empty"]
  have 2: "response_of (posts_handler 2000 sample_clock 1793703900000 upstream_nested
                          (initial_process Map.empty))
             = Inr \<lparr>statusCode = 500,
                     sent = Some (Json (JObject
                       [(''message'',
                         JString ''Failed to fetch posts from external service.'')]))\<rparr>"
    by (auto simp: response_of_def sample_relay_answers failure_response_def)
  show ?thesis
    unfolding 1 2 by (simp add: upstream_infinity_def upstream_nested_def)
qed

text \<open>
  C2. When the upstream of \<^verbatim>\<open>GET /posts\<close> or \<^verbatim>\<open>GET /random-fact\<close> returns a status
  outside 200 to 299, or the fetch or the JSON parse fails, the handler responds with
  exactly status 500 and the fixed message of its endpoint; nothing of the upstream's
  status or body is in the response.
\<close>

theorem relay_failure_fixed_500:
  "(upstream_fails fetch ''https://jsonplaceholder.typicode.com/posts'' \<longrightarrow>
      (\<exists>p'. posts_handler stack lts now fetch p =
         Inr (\<lparr>statusCode = 500,
               sent = Some (Json (JObject
                 [(''message'', JString ''Failed to fetch posts from external service.'')]))\<rparr>,
              p')))
   \<and> (upstream_fails fetch ''https://uselessfacts.jsph.pl/random.json?language=en'' \<longrightarrow>
      (\<exists>p'. random_fact_handler stack lts now fetch p =
         Inr (\<lparr>statusCode = 500,
               sent = Some (Json (JObject
                 [(''message'', JString ''Failed to fetch a random fact.'')]))\<rparr>,
              p')))"
  using posts_handler_answer [of stack lts now fetch p]
        random_fact_handler_answer [of stack lts now fetch p]
        relay_answer_failure [of fetch _ stack]
  unfolding failure_response_def by metis

theorem relay_failure_fixed_500_witness:
  "upstream_fails upstream_404 ''https://jsonplaceholder.typicode.com/posts''
   \<and> upstream_fails upstream_html ''https://uselessfacts.jsph.pl/random.json?language=en''
   \<and> (\<exists>p'. posts_handler 2000 sample_clock 1793703900000 upstream_404
               (initial_process Map.empty) =
         Inr (\<lparr>statusCode = 500,
               sent = Some (Json (JObject
                 [(''message'', JString ''Failed to fetch posts from external service.'')]))\<rparr>,
              p'))
   \<and> (\<exists>p'. random_fact_handler 2000 sample_clock 1793703900000 upstream_html
               (initial_process Map.empty) =
         Inr (\<lparr>statusCode = 500,
               sent = Some (Json (JObject
                 [(''message'', JString ''Failed to fetch a random fact.'')]))\<rparr>,
              p'))"
  using relay_failure_fixed_500
          [of upstream_404 2000 sample_clock 1793703900000 "initial_process Map.empty"]
        relay_failure_fixed_500
          [of upstream_html 2000 sample_clock 1793703900000 "initial_process Map.empty"]
        sample_upstreams
  by blast

text \<open>
  C3. \<^verbatim>\<open>GET /\<close> returns status 200 and a fixed literal body. The literal is
  \<^verbatim>\<open>Hello, World! The server is running.\<close> in the server script carried by
  \<^verbatim>\<open>src/Dockerfile\<close>, and \<^verbatim>\<open>Hello, World!\<close> in \<^verbatim>\<open>src/index.js\<close>.
\<close>

theorem root_handler_literal:
  "dispatch stack lts Root now now_log fetch p =
     Inr (\<lparr>statusCode = 200, sent = Some (Text ''Hello, World! The server is running.'')\<rparr>, p)
   \<and> index_js_root_handler = \<lparr>statusCode = 200, sent = Some (Text ''Hello, World!'')\<rparr>"
  by (simp add: dispatch_def root_handler_def index_js_root_handler_def)

text \<open>The root handler of \<^verbatim>\<open>src/index.js\<close> does not send the longer literal.\<close>

theorem index_js_root_counterexample:
  "sent (index_js_root_handler :: int res)
     \<noteq> Some (Text ''Hello, World! The server is running.'')"
  by (simp add: index_js_root_handler_def)

text \<open>
  C4. When none of the five environment variables is set, \<^verbatim>\<open>GET /env\<close> returns
  status 200 and a \<^verbatim>\<open>variables\<close> record that maps each of the five names to
  \<^verbatim>\<open>NOT FOUND\<close>.
\<close>

theorem env_nothing_set:
  assumes "env p ''testkey1'' = None" and "env p ''testkey2'' = None"
    and "env p ''testkey3'' = None" and "env p ''testkey4'' = None"
    and "env p ''KUBERNETES_SERVICE_HOST'' = None"
  shows "response_of (env_handler stack lts now p) =
     Inr \<lparr>statusCode = 200,
      sent = Some (Json (JObject
        [(''message'', JString ''Environment variables as seen by the Node.js process:''),
         (''variables'', JObject
            [(''testkey1'', JString ''NOT FOUND''),
             (''testkey2'', JString ''NOT FOUND''),
             (''testkey3'', JString ''NOT FOUND''),
             (''testkey4'', JString ''NOT FOUND''),
             (''KUBERNETES_SERVICE_HOST'', JString ''NOT FOUND'')])]))\<rparr>"
  using assms
  by (simp add: env_handler_response relevantEnvVars_def js_or_def)

theorem env_nothing_set_witness:
  "env (initial_process Map.empty) ''testkey1'' = None
   \<and> response_of (env_handler 2000 sample_clock 1793703900000 (initial_process Map.empty)) =
     (Inr \<lparr>statusCode = 200,
      sent = Some (Json (JObject
        [(''message'', JString ''Environment variables as seen by the Node.js process:''),
         (''variables'', JObject
            [(''testkey1'', JString ''NOT FOUND''),
             (''testkey2'', JString ''NOT FOUND''),
             (''testkey3'', JString ''NOT FOUND''),
             (''testkey4'', JString ''NOT FOUND''),
             (''KUBERNETES_SERVICE_HOST'', JString ''NOT FOUND'')])]))\<rparr>
      :: js_error + int res)"
proof -
  have h: "env (initial_process Map.empty) k = None" for k
    by (simp add: initial_process_def)
  from h env_nothing_set [OF h h h h h] show ?thesis by blast
qed

text \<open>
  C5. When \<^verbatim>\<open>testkey1\<close> is set to \<^verbatim>\<open>foo\<close> and the other four variables are not set,
  \<^verbatim>\<open>GET /env\<close> returns status 200 and a \<^verbatim>\<open>variables\<close> record that maps
  \<^verbatim>\<open>testkey1\<close> to \<^verbatim>\<open>foo\<close> and the other four names to \<^verbatim>\<open>NOT FOUND\<close>.
\<close>

theorem env_testkey1_foo:
  assumes "env p ''testkey1'' = Some ''foo''" and "env p ''testkey2'' = None"
    and "env p ''testkey3'' = None" and "env p ''testkey4'' = None"
    and "env p ''KUBERNETES_SERVICE_HOST'' = None"
  shows "response_of (env_handler stack lts now p) =
     Inr \<lparr>statusCode = 200,
      sent = Some (Json (JObject
        [(''message'', JString ''Environment variables as seen by the Node.js process:''),
         (''variables'', JObject
            [(''testkey1'', JString ''foo''),
             (''testkey2'', JString ''NOT FOUND''),
             (''testkey3'', JString ''NOT FOUND''),
             (''testkey4'', JString ''NOT FOUND''),
             (''KUBERNETES_SERVICE_HOST'', JString ''NOT FOUND'')])]))\<rparr>"
  using assms
  by (simp add: env_handler_response relevantEnvVars_def js_or_def)

theorem env_testkey1_foo_witness:
  "env (initial_process [''testkey1'' \<mapsto> ''foo'']) ''testkey1'' = Some ''foo''
   \<and> env (initial_process [''testkey1'' \<mapsto> ''foo'']) ''testkey2'' = None
   \<and> response_of (env_handler 2000 sample_clock 1793703900000
                    (initial_process [''testkey1'' \<mapsto> ''foo''])) =
     (Inr \<lparr>statusCode = 200,
      sent = Some (Json (JObject
        [(''message'', JString ''Environment variables as seen by the Node.js process:''),
         (''variables'', JObject
            [(''testkey1'', JString ''foo''),
             (''testkey2'', JString ''NOT FOUND''),
             (''testkey3'', JString ''NOT FOUND''),
             (''testkey4'', JString ''NOT FOUND''),
             (''KUBERNETES_SERVICE_HOST'', JString ''NOT FOUND'')])]))\<rparr>
      :: js_error + int res)"
proof -
  have h1: "env (initial_process [''testkey1'' \<mapsto> ''foo'']) ''testkey1'' = Some ''foo''"
    by (simp add: initial_process_def)
  have h2: "env (initial_process [''testkey1'' \<mapsto> ''foo'']) ''testkey2'' = None"
    by (simp add: initial_process_def)
  have h3: "env (initial_process [''testkey1'' \<mapsto> ''foo'']) ''testkey3'' = None"
    by (simp add: initial_process_def)
  have h4: "env (initial_process [''testkey1'' \<mapsto> ''foo'']) ''testkey4'' = None"
    by (simp add: initial_process_def)
  have h5: "env (initial_process [''testkey1'' \<mapsto> ''foo'']) ''KUBERNETES_SERVICE_HOST'' = None"
    by (simp add: initial_process_def)
  from h1 h2 env_testkey1_foo [OF h1 h2 h3 h4 h5] show ?thesis by blast
qed

text \<open>
  C6. \<^verbatim>\<open>GET /health\<close> returns status 200 with the \<^verbatim>\<open>status\<close> field \<^verbatim>\<open>ok\<close> and
  a \<^verbatim>\<open>timestamp\<close> that is the ISO form of the clock reading of the call: a valid
  date-time, which reads back as that very reading, so that two calls at different
  times carry different time stamps.
\<close>

theorem health_fresh_timestamp:
  assumes "valid_time now" and "valid_time now'"
  shows "response_of (health_handler stack lts now now_log p) =
           Inr \<lparr>statusCode = 200,
            sent = Some (Json (JObject
              [(''status'', JString ''ok''),
               (''message'', JString ''Service is healthy''),
               (''timestamp'', JString (toISOString now))]))\<rparr>
         \<and> parse_iso (toISOString now) = Some now
         \<and> (now \<noteq> now' \<longrightarrow>
              timestamp_of (health_handler stack lts now now_log p)
              \<noteq> timestamp_of (health_handler stack lts now' now_log' p'))"
proof -
  have "toISOString now \<noteq> toISOString now'" if "now \<noteq> now'"
  proof
    assume "toISOString now = toISOString now'"
    then have "parse_iso (toISOString now) = parse_iso (toISOString now')" by simp
    with parse_iso_toISOString [OF assms(1)] parse_iso_toISOString [OF assms(2)] that
    show False by simp
  qed
  with parse_iso_toISOString [OF assms(1)] show ?thesis
    by (simp add: health_handler_response health_handler_timestamp)
qed

theorem health_fresh_timestamp_witness:
  "valid_time 1793703900000 \<and> valid_time 1793703900001
   \<and> response_of (health_handler 2000 sample_clock 1793703900000 1793703900002
                    (initial_process Map.empty)) =
       (Inr \<lparr>statusCode = 200,
         sent = Some (Json (JObject
           [(''status'', JString ''ok''),
            (''message'', JString ''Service is healthy''),
            (''timestamp'', JString ''2026-11-03T11:05:00.000Z'')]))\<rparr> :: js_error + int res)
   \<and> parse_iso ''2026-11-03T11:05:00.000Z'' = Some 1793703900000
   \<and> timestamp_of (health_handler 2000 sample_clock 1793703900000 1793703900002
                     (initial_process Map.empty) :: js_error + int res \<times> process)
     \<noteq> timestamp_of (health_handler 2000 sample_clock 1793703900001 1793703900003
                       (initial_process Map.empty) :: js_error + int res \<times> process)"
proof -
  have v: "valid_time 1793703900000" "valid_time 1793703900001"
    by (simp_all add: valid_time_def)
  have iso: "toISOString 1793703900000 = ''2026-11-03T11:05:00.000Z''"
    by code_simp
  have ne: "(1793703900000::int) \<noteq> 1793703900001"
    by simp
  from health_fresh_timestamp
         [OF v, of 2000 sample_clock 1793703900002 "initial_process Map.empty" 1793703900003
            "initial_process Map.empty"]
       v ne
  show ?thesis
    unfolding iso by blast
qed

text \<open>
  C7. Every invocation of a relay handler ends with a response, and the response is one
  of two: the fixed 500 of the endpoint, or a 200 that carries the upstream value, the
  latter only when the upstream did not fail. No error escapes the handler, whatever the
  upstream does. The server goes on: in any run, each request gets the answer of its
  route, whatever failed before it.
\<close>

theorem relay_two_outcomes:
  "(\<exists>p'. dispatch stack lts Posts now now_log fetch p =
           Inr (relay_answer stack fetch ''https://jsonplaceholder.typicode.com/posts''
                  ''Failed to fetch posts from external service.'', p'))
   \<and> (\<exists>p'. dispatch stack lts RandomFact now now_log fetch p =
           Inr (relay_answer stack fetch
                  ''https://uselessfacts.jsph.pl/random.json?language=en''
                  ''Failed to fetch a random fact.'', p'))
   \<and> (relay_answer stack fetch url msg = failure_response msg
        \<or> statusCode (relay_answer stack fetch url msg) = 200 \<and> \<not> upstream_fails fetch url)
   \<and> statusCode (failure_response msg :: 'a res) = 500
   \<and> (\<exists>p'. serve stack lts evs p = Inr (answers stack (env p) evs, p'))"
proof (intro conjI)
  from posts_handler_answer [of stack lts now fetch p]
  show "\<exists>p'. dispatch stack lts Posts now now_log fetch p =
           Inr (relay_answer stack fetch ''https://jsonplaceholder.typicode.com/posts''
                  ''Failed to fetch posts from external service.'', p')"
    by (auto simp: dispatch_def)
next
  from random_fact_handler_answer [of stack lts now fetch p]
  show "\<exists>p'. dispatch stack lts RandomFact now now_log fetch p =
           Inr (relay_answer stack fetch
                  ''https://uselessfacts.jsph.pl/random.json?language=en''
                  ''Failed to fetch a random fact.'', p')"
    by (auto simp: dispatch_def)
next
  show "relay_answer stack fetch url msg = failure_response msg
        \<or> statusCode (relay_answer stack fetch url msg) = 200 \<and> \<not> upstream_fails fetch url"
    by (auto simp: relay_answer_def upstream_fails_def split: sum.splits)
next
  show "statusCode (failure_response msg :: 'a res) = 500"
    by (simp add: failure_response_def)
next
  from serve_answers [of stack lts evs p]
  show "\<exists>p'. serve stack lts evs p = Inr (answers stack (env p) evs, p')"
    by blast
qed

theorem relay_two_outcomes_witness:
  "(\<exists>p'. dispatch 2000 sample_clock Posts 1793703900000 1793703900000 upstream_down
            (initial_process Map.empty) =
           Inr (failure_response ''Failed to fetch posts from external service.'', p'))
   \<and> (\<exists>p'. serve 2000 sample_clock
              [Get Posts 1793703900000 1793703900000 upstream_down,
               Tick 1793703900100,
               Get Root 1793703900200 1793703900200 upstream_down,
               Get RandomFact 1793703900300 1793703900300 upstream_404,
               Get Posts 1793703900400 1793703900400 upstream_nested,
               Get RandomFact 1793703900500 1793703900500 upstream_html,
               Get Posts 1793703900600 1793703900600 upstream_up]
              (initial_process Map.empty) =
           Inr ([failure_response ''Failed to fetch posts from external service.'',
                 \<lparr>statusCode = 200,
                  sent = Some (Text ''Hello, World! The server is running.'')\<rparr>,
                 failure_response ''Failed to fetch a random fact.'',
                 failure_response ''Failed to fetch posts from external service.'',
                 failure_response ''Failed to fetch a random fact.'',
                 \<lparr>statusCode = 200, sent = Some (Json sample_posts)\<rparr>], p'))"
proof -
  let ?evs = "[Get Posts 1793703900000 1793703900000 upstream_down,
               Tick 1793703900100,
               Get Root 1793703900200 1793703900200 upstream_down,
               Get RandomFact 1793703900300 1793703900300 upstream_404,
               Get Posts 1793703900400 1793703900400 upstream_nested,
               Get RandomFact 1793703900500 1793703900500 upstream_html,
               Get Posts 1793703900600 1793703900600 upstream_up]"
  have a: "answers 2000 (env (initial_process Map.empty)) ?evs =
             [failure_response ''Failed to fetch posts from external service.'',
              \<lparr>statusCode = 200,
               sent = Some (Text ''Hello, World! The server is running.'')\<rparr>,
              failure_response ''Failed to fetch a random fact.'',
              failure_response ''Failed to fetch posts from external service.'',
              failure_response ''Failed to fetch a random fact.'',
              \<lparr>statusCode = 200, sent = Some (Json sample_posts)\<rparr>]"
    by (simp add: route_answer_def sample_relay_answers)
  have b: "relay_answer 2000 upstream_down ''https://jsonplaceholder.typicode.com/posts''
             ''Failed to fetch posts from external service.''
           = failure_response ''Failed to fetch posts from external service.''"
    by (simp add: sample_relay_answers)
  from relay_two_outcomes
         [of 2000 sample_clock 1793703900000 1793703900000 upstream_down
             "initial_process Map.empty" _ _ ?evs]
  show ?thesis
    unfolding a b by blast
qed

text \<open>
  C8. Repeating the same \<^verbatim>\<open>GET\<close> request under the same environment and the same
  upstream behaviour gives a response of the same status and the same body; on
  \<^verbatim>\<open>/health\<close> the bodies agree up to the content of the \<^verbatim>\<open>timestamp\<close> field.
\<close>

theorem repeated_get_same_status_and_shape:
  assumes "env p2 = env p1"
    and "dispatch stack lts rt now1 log1 fetch p1 = Inr (r1, q1)"
    and "dispatch stack lts rt now2 log2 fetch p2 = Inr (r2, q2)"
  shows "statusCode r1 = statusCode r2
         \<and> (if rt = Health then shape (sent r1) = shape (sent r2) else sent r1 = sent r2)"
proof -
  from dispatch_answer [of stack lts rt now1 log1 fetch p1] assms(2)
  have 1: "r1 = route_answer stack (env p1) rt now1 fetch" by auto
  from dispatch_answer [of stack lts rt now2 log2 fetch p2] assms(1,3)
  have 2: "r2 = route_answer stack (env p1) rt now2 fetch" by auto
  show ?thesis
    unfolding 1 2 by (cases rt) (simp_all add: route_answer_def shape_def)
qed

theorem repeated_get_same_status_and_shape_witness:
  "(\<exists>r1 q1 r2 q2.
      dispatch 2000 sample_clock Health 1793703900000 1793703900001 upstream_up
        (initial_process Map.empty) = Inr (r1, q1)
      \<and> env q1 = env (initial_process Map.empty)
      \<and> dispatch 2000 sample_clock Health 1793703960000 1793703960001 upstream_up q1
          = Inr (r2, q2)
      \<and> statusCode r1 = statusCode r2 \<and> shape (sent r1) = shape (sent r2))
   \<and> (\<exists>r1 q1 r2 q2.
      dispatch 2000 sample_clock Posts 1793703900000 1793703900001 upstream_up
        (initial_process Map.empty) = Inr (r1, q1)
      \<and> env q1 = env (initial_process Map.empty)
      \<and> dispatch 2000 sample_clock Posts 1793703960000 1793703960001 upstream_up q1
          = Inr (r2, q2)
      \<and> statusCode r1 = statusCode r2 \<and> sent r1 = sent r2)"
proof (intro conjI)
  let ?p = "initial_process Map.empty"
  from dispatch_answer [of 2000 sample_clock Health 1793703900000 1793703900001 upstream_up ?p]
  obtain r1 q1 where
    d1: "dispatch 2000 sample_clock Health 1793703900000 1793703900001 upstream_up ?p
           = Inr (r1, q1)"
    and e: "env q1 = env ?p"
    by blast
  from dispatch_answer [of 2000 sample_clock Health 1793703960000 1793703960001 upstream_up q1]
  obtain r2 q2 where
    d2: "dispatch 2000 sample_clock Health 1793703960000 1793703960001 upstream_up q1
           = Inr (r2, q2)"
    by blast
  from repeated_get_same_status_and_shape [OF e d1 d2] d1 e d2
  show "\<exists>r1 q1 r2 q2.
      dispatch 2000 sample_clock Health 1793703900000 1793703900001 upstream_up ?p
        = Inr (r1, q1)
      \<and> env q1 = env ?p
      \<and> dispatch 2000 sample_clock Health 1793703960000 1793703960001 upstream_up q1
          = Inr (r2, q2)
      \<and> statusCode r1 = statusCode r2 \<and> shape (sent r1) = shape (sent r2)"
    by auto
next
  let ?p = "initial_process Map.empty"
  from dispatch_answer [of 2000 sample_clock Posts 1793703900000 1793703900001 upstream_up ?p]
  obtain r1 q1 where
    d1: "dispatch 2000 sample_clock Posts 1793703900000 1793703900001 upstream_up ?p
           = Inr (r1, q1)"
    and e: "env q1 = env ?p"
    by blast
  from dispatch_answer [of 2000 sample_clock Posts 1793703960000 1793703960001 upstream_up q1]
  obtain r2 q2 where
    d2: "dispatch 2000 sample_clock Posts 1793703960000 1793703960001 upstream_up q1
           = Inr (r2, q2)"
    by blast
  from repeated_get_same_status_and_shape [OF e d1 d2] d1 e d2
  show "\<exists>r1 q1 r2 q2.
      dispatch 2000 sample_clock Posts 1793703900000 1793703900001 upstream_up ?p
        = Inr (r1, q1)
      \<and> env q1 = env ?p
      \<and> dispatch 2000 sample_clock Posts 1793703960000 1793703960001 upstream_up q1
          = Inr (r2, q2)
      \<and> statusCode r1 = statusCode r2 \<and> sent r1 = sent r2"
    by auto
qed



text \<open>
  C10. \<^verbatim>\<open>spinnerIndex\<close> starts at 0, each tick advances it by one modulo the four
  spinner characters, and after any run of ticks and requests it is one of 0, 1, 2, 3, so
  that the character lookup of the next tick is in bounds.
\<close>

theorem spinner_index_in_bounds:
  "spinnerIndex (initial_process e) = 0
   \<and> spinnerIndex (tick lts now p) = (spinnerIndex p + 1) mod length spinnerChars
   \<and> length spinnerChars = 4
   \<and> (\<exists>rs p'. serve stack lts evs (initial_process e) = Inr (rs, p')
         \<and> spinnerIndex p' \<in> {0, 1, 2, 3}
         \<and> spinnerIndex p' = length (filter is_tick evs) mod 4
         \<and> spinner_char (spinnerIndex p') = [spinnerChars ! spinnerIndex p'])"
proof -
  from serve_answers [of stack lts evs "initial_process e"] obtain rs p' where
    s: "serve stack lts evs (initial_process e) = Inr (rs, p')"
       "spinnerIndex p' mod 4
          = (spinnerIndex (initial_process e) + length (filter is_tick evs)) mod 4"
       "spinnerIndex (initial_process e) < 4 \<longrightarrow> spinnerIndex p' < 4"
    by blast
  have z: "spinnerIndex (initial_process e) = 0"
    by (simp add: initial_process_def)
  with s have lt: "spinnerIndex p' < 4"
    and eq: "spinnerIndex p' = length (filter is_tick evs) mod 4"
    by simp_all
  from lt have "spinnerIndex p' \<in> {0, 1, 2, 3}" by auto
  moreover from lt have "spinner_char (spinnerIndex p') = [spinnerChars ! spinnerIndex p']"
    by (simp add: spinner_char_def spinnerChars_def)
  ultimately show ?thesis using s(1) z eq
    by (simp add: tick_fields spinnerChars_def)
qed

theorem spinner_index_in_bounds_witness:
  "spinnerIndex (initial_process Map.empty) = 0
   \<and> (\<exists>rs p'. serve 2000 sample_clock
          [Tick 1793703900000, Tick 1793703900200,
           Get Root 1793703900300 1793703900300 upstream_up,
           Tick 1793703900400, Tick 1793703900600, Tick 1793703900800]
          (initial_process Map.empty) = Inr (rs, p')
        \<and> spinnerIndex p' = 1
        \<and> spinner_char (spinnerIndex p') = ''/'')"
proof -
  let ?evs = "[Tick 1793703900000, Tick 1793703900200,
               Get Root 1793703900300 1793703900300 upstream_up,
               Tick 1793703900400, Tick 1793703900600, Tick 1793703900800]"
  have n: "length (filter is_tick ?evs) mod 4 = 1"
    by simp
  have c: "spinner_char 1 = ''/''"
    by (simp add: spinner_char_def spinnerChars_def)
  from spinner_index_in_bounds
         [of Map.empty sample_clock 0 "initial_process Map.empty" 2000 ?evs]
  obtain rs p' where
    "spinnerIndex (initial_process Map.empty) = 0"
    "serve 2000 sample_clock ?evs (initial_process Map.empty) = Inr (rs, p')"
    "spinnerIndex p' = length (filter is_tick ?evs) mod 4"
    by blast
  with n c show ?thesis
    by (metis (no_types, lifting))
qed

end
